theory Spec2Isabelle
  imports Complex_Main
begin

section \<open>Orientation search (registration initialisation notebook)\<close>

text \<open>
  The notebook cell "MetricEvaluate" tries a fixed dictionary of Euler angle triples, keeps
  the one with the smallest similarity value and writes it back into the initial transform.
  Angles and similarity values are modelled as real numbers (the source uses finite IEEE
  doubles, which are ordered the same way).
\<close>

type_synonym vec3 = "real \<times> real \<times> real"

text \<open>
  \<^verbatim>\<open>sitk.Euler3DTransform\<close>: three rotation angles, a translation and a fixed
  centre of rotation. \<^verbatim>\<open>sitk.Euler3DTransform()\<close> is the identity.
\<close>

record Euler3DTransform =
  rotation :: vec3
  translation :: vec3
  center :: vec3

definition Euler3DTransform_default :: Euler3DTransform where
  "Euler3DTransform_default =
     \<lparr>rotation = (0, 0, 0), translation = (0, 0, 0), center = (0, 0, 0)\<rparr>"

definition SetRotation :: "vec3 \<Rightarrow> Euler3DTransform \<Rightarrow> Euler3DTransform" where
  "SetRotation angles t = t\<lparr>rotation := angles\<rparr>"

text \<open>
  \<^verbatim>\<open>sitk.CenteredTransformInitializer(fixed_image, moving_image, transform, GEOMETRY)\<close>
  belongs to the image library. It computes a centre and a translation from the two images
  and stores them in the transform it is given; the rotation is left alone. The two computed
  vectors are parameters of the model.
\<close>

definition CenteredTransformInitializer ::
  "vec3 \<Rightarrow> vec3 \<Rightarrow> Euler3DTransform \<Rightarrow> Euler3DTransform" where
  "CenteredTransformInitializer c tr t = t\<lparr>translation := tr, center := c\<rparr>"

text \<open>
  \<^verbatim>\<open>registration_method.MetricEvaluate(fixed_image, moving_image)\<close> evaluates the
  similarity metric at the transform last given to \<^verbatim>\<open>SetInitialTransform\<close>. The
  registration method is configured with random sampling, so a call may consume hidden
  sampler state: the evaluator takes the transform and the sampler state \<open>'g\<close> and returns
  the value with the next sampler state. A deterministic evaluator ignores the state. The
  cell catches nothing, and the evaluator is taken to return a value on every transform.
\<close>

type_synonym 'g metric = "Euler3DTransform \<Rightarrow> 'g \<Rightarrow> real \<times> 'g"

definition deterministic :: "(Euler3DTransform \<Rightarrow> real) \<Rightarrow> 'g metric" where
  "deterministic F = (\<lambda>t g. (F t, g))"

text \<open>
  A metric surface over the angle triples, as the specification's \<^verbatim>\<open>evaluate(rotation)\<close>:
  the value depends on the rotation of the transform only.
\<close>

definition rotation_metric :: "(vec3 \<Rightarrow> real) \<Rightarrow> 'g metric" where
  "rotation_metric surface = deterministic (\<lambda>t. surface (rotation t))"

text \<open>
  The variables of the cell. \<open>evaluated\<close> is a trace added by the model: every call of
  \<^verbatim>\<open>MetricEvaluate\<close> appends the transform it was called on and the value it returned.
\<close>

record 'g search_state =
  initial_transform :: Euler3DTransform
  best_orientation :: vec3
  best_similarity_value :: real
  sampler :: 'g
  evaluated :: "(Euler3DTransform \<times> real) list"

text \<open>
  The dictionary of the source, as the list of its items in the order they are written,
  which is the order in which \<^verbatim>\<open>all_orientations.items()\<close> yields them (Python 3.7
  and later; an older interpreter yields the same items in an order of its own). The loop is
  modelled for any list of items.
\<close>

definition all_orientations :: "(string \<times> vec3) list" where
  "all_orientations =
     [(''x=0, y=0, z=90'', (0, 0, pi / 2)),
      (''x=0, y=0, z=-90'', (0, 0, - pi)),
      (''x=0, y=0, z=180'', (0, 0, pi)),
      (''x=180, y=0, z=0'', (pi, 0, 0)),
      (''x=180, y=0, z=90'', (pi, 0, pi / 2)),
      (''x=180, y=0, z=-90'', (pi, 0, - pi / 2)),
      (''x=180, y=0, z=180'', (pi, 0, pi))]"

text \<open>
  The state before the loop: the initial transform comes from the centred initialiser applied
  to the identity, the best orientation is \<open>(0, 0, 0)\<close> and the best value is the metric at
  the initial transform.
\<close>

definition search_init :: "'g metric \<Rightarrow> vec3 \<Rightarrow> vec3 \<Rightarrow> 'g \<Rightarrow> 'g search_state" where
  "search_init MetricEvaluate c tr g =
     (let t = CenteredTransformInitializer c tr Euler3DTransform_default;
          (v, g') = MetricEvaluate t g
      in \<lparr>initial_transform = t, best_orientation = (0, 0, 0), best_similarity_value = v,
          sampler = g', evaluated = [(t, v)]\<rparr>)"

text \<open>One iteration of \<^verbatim>\<open>for key, orientation in all_orientations.items()\<close>.\<close>

definition search_step ::
  "'g metric \<Rightarrow> 'g search_state \<Rightarrow> string \<times> vec3 \<Rightarrow> 'g search_state" where
  "search_step MetricEvaluate s item =
     (let orientation = snd item;
          t = SetRotation orientation (initial_transform s);
          (current_similarity_value, g') = MetricEvaluate t (sampler s);
          s' = s\<lparr>initial_transform := t, sampler := g',
                 evaluated := evaluated s @ [(t, current_similarity_value)]\<rparr>
      in if current_similarity_value < best_similarity_value s'
         then s'\<lparr>best_similarity_value := current_similarity_value,
                  best_orientation := orientation\<rparr>
         else s')"

fun search_loop ::
  "'g metric \<Rightarrow> 'g search_state \<Rightarrow> (string \<times> vec3) list \<Rightarrow> 'g search_state" where
  "search_loop MetricEvaluate s [] = s"
| "search_loop MetricEvaluate s (item # items) =
     search_loop MetricEvaluate (search_step MetricEvaluate s item) items"

text \<open>
  The whole cell up to \<^verbatim>\<open>initial_transform.SetRotation(*best_orientation)\<close>.
\<close>

definition orientation_search ::
  "'g metric \<Rightarrow> vec3 \<Rightarrow> vec3 \<Rightarrow> (string \<times> vec3) list \<Rightarrow> 'g \<Rightarrow> 'g search_state" where
  "orientation_search MetricEvaluate c tr orientations g =
     (let s = search_loop MetricEvaluate (search_init MetricEvaluate c tr g) orientations
      in s\<lparr>initial_transform := SetRotation (best_orientation s) (initial_transform s)\<rparr>)"


subsection \<open>The search as the specification words it\<close>

text \<open>
  The specification describes the search as a fold over the catalogue with an evaluator of
  rotation triples: seed the running best with the identity rotation and its score, and
  replace both when a candidate scores strictly less.
\<close>

fun spec_search_loop :: "(vec3 \<Rightarrow> real) \<Rightarrow> vec3 \<times> real \<Rightarrow> vec3 list \<Rightarrow> vec3 \<times> real" where
  "spec_search_loop evaluate best [] = best"
| "spec_search_loop evaluate best (r # rs) =
     spec_search_loop evaluate (if evaluate r < snd best then (r, evaluate r) else best) rs"

definition spec_orientation_search :: "(vec3 \<Rightarrow> real) \<Rightarrow> vec3 list \<Rightarrow> vec3 \<times> real" where
  "spec_orientation_search evaluate catalogue =
     spec_search_loop evaluate ((0, 0, 0), evaluate (0, 0, 0)) catalogue"

text \<open>
  The returned pair is the first minimum of the trace: some entry of the trace carries the
  returned rotation and score, no entry scores less, and every earlier entry scores strictly
  more.
\<close>

definition first_minimum :: "(Euler3DTransform \<times> real) list \<Rightarrow> vec3 \<Rightarrow> real \<Rightarrow> bool" where
  "first_minimum trace r v \<longleftrightarrow>
     (\<exists>i < length trace. rotation (fst (trace ! i)) = r \<and> snd (trace ! i) = v \<and>
        (\<forall>j < length trace. v \<le> snd (trace ! j)) \<and> (\<forall>j < i. v < snd (trace ! j)))"

text \<open>The best similarity value after the first \<open>n\<close> iterations of the loop.\<close>

definition running_best ::
  "'g metric \<Rightarrow> vec3 \<Rightarrow> vec3 \<Rightarrow> (string \<times> vec3) list \<Rightarrow> 'g \<Rightarrow> nat \<Rightarrow> real" where
  "running_best MetricEvaluate c tr orientations g n =
     best_similarity_value
       (search_loop MetricEvaluate (search_init MetricEvaluate c tr g) (take n orientations))"

text \<open>
  The end-to-end scenario of the specification: three candidates and the scores
  identity 0.8, 0.3, 0.9, 0.5.
\<close>

definition scenario_catalogue :: "(string \<times> vec3) list" where
  "scenario_catalogue =
     [(''cand1'', (0, 0, pi / 2)), (''cand2'', (pi, 0, 0)), (''cand3'', (pi, 0, pi / 2))]"

definition scenario_score :: "vec3 \<Rightarrow> real" where
  "scenario_score r =
     (if r = (0, 0, 0) then 8 / 10
      else if r = (0, 0, pi / 2) then 3 / 10
      else if r = (pi, 0, 0) then 9 / 10
      else if r = (pi, 0, pi / 2) then 5 / 10
      else 1)"

text \<open>An evaluator with an exact tie between the first and the last candidate.\<close>

definition tie_score :: "vec3 \<Rightarrow> real" where
  "tie_score r = (if r = (0, 0, 0) then 8 / 10 else if r = (pi, 0, 0) then 9 / 10 else 3 / 10)"

subsection \<open>Rotation matrices\<close>

text \<open>
  The rotation an angle triple denotes. The transform class belongs to the image library,
  which documents that it composes the elementary rotations about the three axes as
  \<open>R\<^sub>z R\<^sub>x R\<^sub>y\<close>. A matrix is the list of its rows.
\<close>

type_synonym matrix = "real list list"

definition dot :: "real list \<Rightarrow> real list \<Rightarrow> real" where
  "dot u v = (\<Sum>(x, y)\<leftarrow>zip u v. x * y)"

definition mat_mul3 :: "matrix \<Rightarrow> matrix \<Rightarrow> matrix" where
  "mat_mul3 A B = map (\<lambda>row. map (\<lambda>j. dot row (map (\<lambda>r. r ! j) B)) [0, 1, 2]) A"

definition rotation_x :: "real \<Rightarrow> matrix" where
  "rotation_x a = [[1, 0, 0], [0, cos a, - sin a], [0, sin a, cos a]]"

definition rotation_y :: "real \<Rightarrow> matrix" where
  "rotation_y a = [[cos a, 0, sin a], [0, 1, 0], [- sin a, 0, cos a]]"

definition rotation_z :: "real \<Rightarrow> matrix" where
  "rotation_z a = [[cos a, - sin a, 0], [sin a, cos a, 0], [0, 0, 1]]"

definition rotation_matrix :: "vec3 \<Rightarrow> matrix" where
  "rotation_matrix angles =
     (case angles of (ax, ay, az) \<Rightarrow>
        mat_mul3 (rotation_z az) (mat_mul3 (rotation_x ax) (rotation_y ay)))"

subsection \<open>The exhaustive optimizer on the rotation grid\<close>

text \<open>
  Modelled from the spec: the exhaustive optimizer itself belongs to the image library and
  is not part of the notebook; only its configuration is
  (\<^verbatim>\<open>SetOptimizerAsExhaustive(numberOfSteps=[1,0,2,0,0,0], stepLength = np.pi)\<close>,
  \<^verbatim>\<open>SetOptimizerScales([1,1,0.5,1,1,1])\<close>). The specification describes it as a
  single grid search that evaluates every grid point and writes the best point back into the
  transform. The grid is centred on the initial parameters; along parameter \<open>d\<close> it has the
  \<open>2 * numberOfSteps[d] + 1\<close> values \<open>centre + k * stepLength * scale[d]\<close>. Only the
  three angles are listed here: the translation parameters have zero steps. The metric
  surface is a function of the angle triple.
\<close>

definition numberOfSteps :: "nat list" where
  "numberOfSteps = [1, 0, 2, 0, 0, 0]"

definition stepLength :: real where
  "stepLength = pi"

definition optimizer_scales :: "real list" where
  "optimizer_scales = [1, 1, 1 / 2, 1, 1, 1]"

text \<open>
  Modelled from the spec: the values of parameter \<open>d\<close> on the grid of the library's
  optimizer, for the configuration above.
\<close>

definition axis_samples :: "nat \<Rightarrow> real \<Rightarrow> real list" where
  "axis_samples d centre =
     map (\<lambda>k. centre + real_of_int k * stepLength * optimizer_scales ! d)
       [- int (numberOfSteps ! d) .. int (numberOfSteps ! d)]"

text \<open>
  Modelled from the spec: the grid of the library's optimizer over the three angles
  (parameters 0, 1 and 2); the first parameter varies fastest.
\<close>

definition exhaustive_grid :: "vec3 \<Rightarrow> vec3 list" where
  "exhaustive_grid centre =
     (case centre of (x0, y0, z0) \<Rightarrow>
        concat (map (\<lambda>z. concat (map (\<lambda>y. map (\<lambda>x. (x, y, z)) (axis_samples 0 x0))
                                     (axis_samples 1 y0)))
                    (axis_samples 2 z0)))"

text \<open>
  Modelled from the spec: the library's optimizer run, which starts from the value at the
  centre, visits every grid point and keeps the point with the least value (the first one
  on a tie); that point is what is written back into the transform.
\<close>

definition exhaustive_search :: "(vec3 \<Rightarrow> real) \<Rightarrow> vec3 \<Rightarrow> vec3 \<times> real" where
  "exhaustive_search surface centre =
     spec_search_loop surface (centre, surface centre) (exhaustive_grid centre)"

text \<open>
  A metric surface that depends on the rotation only and is least at the rotation by
  \<open>-90\<close> degrees about \<open>z\<close>.
\<close>

definition minus_90_surface :: "vec3 \<Rightarrow> real" where
  "minus_90_surface r = (if rotation_matrix r = rotation_matrix (0, 0, - pi / 2) then 0 else 1)"

text \<open>Any metric surface that depends on the triple through the rotation it denotes.\<close>

definition matrix_surface :: "(matrix \<Rightarrow> real) \<Rightarrow> vec3 \<Rightarrow> real" where
  "matrix_surface g r = g (rotation_matrix r)"

text \<open>
  The catalogue with every entry holding the angles its key names: the entry
  \<open>x=0, y=0, z=-90\<close> holds \<open>(0, 0, -\<pi>/2)\<close>.
\<close>

definition intended_orientations :: "(string \<times> vec3) list" where
  "intended_orientations =
     [(''x=0, y=0, z=90'', (0, 0, pi / 2)),
      (''x=0, y=0, z=-90'', (0, 0, - pi / 2)),
      (''x=0, y=0, z=180'', (0, 0, pi)),
      (''x=180, y=0, z=0'', (pi, 0, 0)),
      (''x=180, y=0, z=90'', (pi, 0, pi / 2)),
      (''x=180, y=0, z=-90'', (pi, 0, - pi / 2)),
      (''x=180, y=0, z=180'', (pi, 0, pi))]"

section \<open>Sphere fitting (segmentation notebook)\<close>

text \<open>
  The cell that fits a sphere to the edge points sets up one linear equation per point and
  hands the system to \<^verbatim>\<open>scipy.linalg.lstsq\<close>. Every number of the cell is a double, and
  every arithmetic operation rounds its exact result to the nearest double.
\<close>

subsection \<open>Double-precision numbers\<close>

text \<open>
  A value of IEEE 754 binary64: a finite number, an infinity or a NaN. The sign of zero and the
  payload of a NaN play no part in the cell and are not modelled.
\<close>

datatype float64 = Finite real | PInf | NInf | NaN

definition pow2 :: "int \<Rightarrow> real" where
  "pow2 e = 2 powr real_of_int e"

text \<open>Rounding to the nearest integer, a tie going to the even one.\<close>

definition round_half_even :: "real \<Rightarrow> int" where
  "round_half_even q =
     (let f = \<lfloor>q\<rfloor>
      in if q - of_int f < 1 / 2 then f
         else if 1 / 2 < q - of_int f then f + 1
         else if even f then f else f + 1)"

text \<open>
  The exponent of the binade of \<open>x\<close>: the doubles of the binade are the multiples of
  \<open>pow2 (binade x - 52)\<close>. Below \<open>pow2 (- 1022)\<close> the spacing stays that of the subnormal
  numbers.
\<close>

definition binade :: "real \<Rightarrow> int" where
  "binade x = max \<lfloor>log 2 \<bar>x\<bar>\<rfloor> (- 1022)"

text \<open>Rounding to nearest, ties to even, with the exponent unbounded above.\<close>

definition rnd :: "real \<Rightarrow> real" where
  "rnd x =
     (if x = 0 then 0
      else of_int (round_half_even (x / pow2 (binade x - 52))) * pow2 (binade x - 52))"

text \<open>
  The double nearest to a real number; a result that rounds to \<open>pow2 1024\<close> or beyond is an
  infinity.
\<close>

definition fl :: "real \<Rightarrow> float64" where
  "fl x =
     (if pow2 1024 \<le> rnd x then PInf
      else if rnd x \<le> - pow2 1024 then NInf
      else Finite (rnd x))"


fun isfinite :: "float64 \<Rightarrow> bool" where
  "isfinite (Finite x) = True"
| "isfinite PInf = False"
| "isfinite NInf = False"
| "isfinite NaN = False"

fun finite_value :: "float64 \<Rightarrow> real" where
  "finite_value (Finite x) = x"
| "finite_value PInf = 0"
| "finite_value NInf = 0"
| "finite_value NaN = 0"

subsection \<open>The operations of the cell\<close>

text \<open>
  The errors of the model. \<open>OverflowError\<close> is what Python's \<^verbatim>\<open>**\<close> raises on a float
  whose power is out of range, \<open>ValueError\<close> what \<^verbatim>\<open>scipy.linalg\<close> raises on an array
  that holds an infinity or a NaN, \<open>IndexError\<close> what indexing raises, and \<open>LinAlgError\<close>
  what the solver raises when it does not converge. \<open>DegenerateInputError\<close> and
  \<open>NonPhysicalResultError\<close> are the errors the specification names; the source has no
  statement that raises either.
\<close>

datatype error =
  OverflowError | ValueError | IndexError | LinAlgError | DegenerateInputError
  | NonPhysicalResultError

text \<open>Unary minus of a float: exact.\<close>

fun f_neg :: "float64 \<Rightarrow> float64" where
  "f_neg (Finite x) = Finite (- x)"
| "f_neg PInf = NInf"
| "f_neg NInf = PInf"
| "f_neg NaN = NaN"

text \<open>Subtraction of numpy floats: rounds, and raises nothing.\<close>

fun np_sub :: "float64 \<Rightarrow> float64 \<Rightarrow> float64" where
  "np_sub (Finite x) (Finite y) = fl (x - y)"
| "np_sub NaN y = NaN"
| "np_sub x NaN = NaN"
| "np_sub PInf PInf = NaN"
| "np_sub NInf NInf = NaN"
| "np_sub PInf y = PInf"
| "np_sub NInf y = NInf"
| "np_sub (Finite x) PInf = NInf"
| "np_sub (Finite x) NInf = PInf"

text \<open>\<^verbatim>\<open>np.sqrt\<close>: of a negative number it is \<^verbatim>\<open>nan\<close>, not an exception.\<close>

fun np_sqrt :: "float64 \<Rightarrow> float64" where
  "np_sqrt (Finite x) = (if x < 0 then NaN else fl (sqrt x))"
| "np_sqrt PInf = PInf"
| "np_sqrt NInf = NaN"
| "np_sqrt NaN = NaN"

text \<open>
  \<^verbatim>\<open>x**2\<close> on a Python float, which is what \<^verbatim>\<open>linalg.norm\<close> returns for a vector:
  the rounded square, and \<open>OverflowError\<close> when the square of a finite number is out of range.
\<close>

fun py_square :: "float64 \<Rightarrow> error + float64" where
  "py_square (Finite x) =
     (case fl (x * x) of Finite y \<Rightarrow> Inr (Finite y) | _ \<Rightarrow> Inl OverflowError)"
| "py_square PInf = Inr PInf"
| "py_square NInf = Inr PInf"
| "py_square NaN = Inr NaN"

text \<open>
  \<^verbatim>\<open>np.asarray_chkfinite\<close>, the first thing \<^verbatim>\<open>scipy.linalg.norm\<close> does with its
  argument.
\<close>

definition asarray_chkfinite :: "float64 list \<Rightarrow> error + float64 list" where
  "asarray_chkfinite v = (if list_all isfinite v then Inr v else Inl ValueError)"

text \<open>
  The Euclidean norm of a vector of finite doubles, which \<^verbatim>\<open>scipy.linalg.norm\<close> takes
  from the BLAS routine \<^verbatim>\<open>nrm2\<close>. The routine is modelled as correctly rounded: it
  returns the double nearest to the exact norm.
\<close>

definition nrm2 :: "float64 list \<Rightarrow> float64" where
  "nrm2 v = fl (sqrt (\<Sum>x\<leftarrow>v. (finite_value x)\<^sup>2))"

definition linalg_norm :: "float64 list \<Rightarrow> error + float64" where
  "linalg_norm v = (case asarray_chkfinite v of Inl e \<Rightarrow> Inl e | Inr a \<Rightarrow> Inr (nrm2 a))"

text \<open>The expression \<^verbatim>\<open>linalg.norm(v)**2\<close>, which the cell evaluates in two places.\<close>

definition norm_squared :: "float64 list \<Rightarrow> error + float64" where
  "norm_squared v = (case linalg_norm v of Inl e \<Rightarrow> Inl e | Inr n \<Rightarrow> py_square n)"

text \<open>
  \<^verbatim>\<open>np.array(point)\<close> for a physical point, whose coordinates are finite numbers.
\<close>

definition np_array :: "vec3 \<Rightarrow> float64 list" where
  "np_array point = (case point of (x, y, z) \<Rightarrow> [Finite x, Finite y, Finite z])"

text \<open>\<^verbatim>\<open>c*v\<close> for a Python number \<open>c\<close> and an array \<open>v\<close> of finite numbers.\<close>

definition scale_array :: "real \<Rightarrow> float64 list \<Rightarrow> float64 list" where
  "scale_array c v = map (\<lambda>x. fl (c * finite_value x)) v"

type_synonym np_matrix = "float64 list list"

type_synonym np_vector = "float64 list"

definition np_ones :: "nat \<Rightarrow> nat \<Rightarrow> np_matrix" where
  "np_ones n m = replicate n (replicate m (Finite 1))"

definition np_zeros :: "nat \<Rightarrow> np_vector" where
  "np_zeros n = replicate n (Finite 0)"

text \<open>
  \<^verbatim>\<open>for row, point in enumerate(physical_points)\<close>: the slice assignment
  \<^verbatim>\<open>A[row,0:3] = -2*np.array(point)\<close> replaces the first three entries of the row, and
  \<^verbatim>\<open>b[row] = -linalg.norm(point)**2\<close> the entry of the right-hand side. Both arrays
  have one row per point, so \<open>row\<close> is always in range. An error of the second statement
  ends the cell.
\<close>

fun fill_system ::
  "nat \<Rightarrow> vec3 list \<Rightarrow> np_matrix \<times> np_vector \<Rightarrow> error + np_matrix \<times> np_vector" where
  "fill_system row [] (A, b) = Inr (A, b)"
| "fill_system row (point # points) (A, b) =
     (let A' = A[row := scale_array (- 2) (np_array point) @ drop 3 (A ! row)]
      in case norm_squared (np_array point) of
           Inl e \<Rightarrow> Inl e
         | Inr sq \<Rightarrow> fill_system (Suc row) points (A', b[row := f_neg sq]))"

definition build_system :: "vec3 list \<Rightarrow> error + np_matrix \<times> np_vector" where
  "build_system physical_points =
     fill_system 0 physical_points
       (np_ones (length physical_points) 4, np_zeros (length physical_points))"

text \<open>
  \<^verbatim>\<open>linalg.lstsq(A, b)\<close> is the solver of the numerical library: a parameter of the
  model, which returns a vector of doubles or raises. Only the solution vector is kept by the
  cell (\<^verbatim>\<open>res,_,_,_ = linalg.lstsq(A,b)\<close>); the residues, the rank and the singular
  values are dropped.
\<close>

type_synonym solver = "np_matrix \<Rightarrow> np_vector \<Rightarrow> error + np_vector"

text \<open>
  \<^verbatim>\<open>np.sqrt(linalg.norm(res[0:3])**2 - res[3])\<close>. The slice never fails; the left operand
  of the subtraction is evaluated before \<^verbatim>\<open>res[3]\<close>.
\<close>

definition sphere_radius :: "np_vector \<Rightarrow> error + float64" where
  "sphere_radius res =
     (case norm_squared (take 3 res) of
        Inl e \<Rightarrow> Inl e
      | Inr sq \<Rightarrow>
          if length res \<le> 3 then Inl IndexError
          else Inr (np_sqrt (np_sub sq (res ! 3))))"

text \<open>
  The cell: build the system, solve it, compute the radius. The cell prints the radius and
  keeps \<open>res\<close>, whose first three entries are the centre; the model returns both.
\<close>

definition sphere_fit :: "solver \<Rightarrow> vec3 list \<Rightarrow> error + np_vector \<times> float64" where
  "sphere_fit lstsq physical_points =
     (case build_system physical_points of
        Inl e \<Rightarrow> Inl e
      | Inr (A, b) \<Rightarrow>
          (case lstsq A b of
             Inl e \<Rightarrow> Inl e
           | Inr res \<Rightarrow>
               (case sphere_radius res of
                  Inl e \<Rightarrow> Inl e
                | Inr radius \<Rightarrow> Inr (res, radius))))"

text \<open>
  The row and the right-hand side the loop computes for one point, in closed form. The
  right-hand side is stored only when the squared norm does not overflow.
\<close>

definition cell_row :: "vec3 \<Rightarrow> np_vector" where
  "cell_row p = (case p of (x, y, z) \<Rightarrow> [fl (- 2 * x), fl (- 2 * y), fl (- 2 * z), Finite 1])"

definition cell_rhs :: "vec3 \<Rightarrow> float64" where
  "cell_rhs p = (case norm_squared (np_array p) of Inr sq \<Rightarrow> f_neg sq | Inl e \<Rightarrow> NaN)"

subsection \<open>The system of the specification, in exact arithmetic\<close>

definition residual :: "matrix \<Rightarrow> real list \<Rightarrow> real list \<Rightarrow> real" where
  "residual A b u = (\<Sum>(row, rhs)\<leftarrow>zip A b. (dot row u - rhs)\<^sup>2)"

definition least_squares_solution :: "matrix \<Rightarrow> real list \<Rightarrow> real list \<Rightarrow> bool" where
  "least_squares_solution A b u \<longleftrightarrow>
     length u = 4 \<and> (\<forall>v. length v = 4 \<longrightarrow> residual A b u \<le> residual A b v)"

text \<open>
  Among several minimisers the solver is documented to return the one of least Euclidean norm.
\<close>

definition minimum_norm_solution :: "matrix \<Rightarrow> real list \<Rightarrow> real list \<Rightarrow> bool" where
  "minimum_norm_solution A b u \<longleftrightarrow>
     least_squares_solution A b u \<and>
     (\<forall>v. least_squares_solution A b v \<longrightarrow> (\<Sum>x\<leftarrow>u. x\<^sup>2) \<le> (\<Sum>x\<leftarrow>v. x\<^sup>2))"

text \<open>The row and the right-hand side the specification gives for a point.\<close>

definition sphere_row :: "vec3 \<Rightarrow> real list" where
  "sphere_row p = (case p of (x, y, z) \<Rightarrow> [- 2 * x, - 2 * y, - 2 * z, 1])"

definition sphere_rhs :: "vec3 \<Rightarrow> real" where
  "sphere_rhs p = (case p of (x, y, z) \<Rightarrow> - (x\<^sup>2 + y\<^sup>2 + z\<^sup>2))"

text \<open>The system of the specification, as arrays of doubles.\<close>

definition exact_system :: "vec3 list \<Rightarrow> np_matrix \<times> np_vector" where
  "exact_system pts =
     (map (\<lambda>p. map Finite (sphere_row p)) pts, map (\<lambda>p. Finite (sphere_rhs p)) pts)"


definition on_sphere :: "vec3 \<Rightarrow> real \<Rightarrow> vec3 \<Rightarrow> bool" where
  "on_sphere c r p \<longleftrightarrow>
     (case c of (cx, cy, cz) \<Rightarrow> case p of (x, y, z) \<Rightarrow>
        (x - cx)\<^sup>2 + (y - cy)\<^sup>2 + (z - cz)\<^sup>2 = r\<^sup>2)"

subsection \<open>Test inputs\<close>

text \<open>Solvers that return a fixed vector or fail.\<close>

definition constant_solver :: "np_vector \<Rightarrow> solver" where
  "constant_solver u = (\<lambda>A b. Inr u)"

definition failing_solver :: solver where
  "failing_solver = (\<lambda>A b. Inl LinAlgError)"

text \<open>Three points: fewer than four, and all in the plane \<open>z = 0\<close>.\<close>

definition three_points :: "vec3 list" where
  "three_points = [(1, 0, 0), (- 1, 0, 0), (0, 1, 0)]"

text \<open>A point whose norm is a double and whose squared norm is out of range.\<close>

definition huge_points :: "vec3 list" where
  "huge_points = [(2 ^ 600, 0, 0)]"



text \<open>Six points on the sphere of radius 1 about (100000003, 100000000, 0).\<close>

definition unit_points :: "vec3 list" where
  "unit_points =
     [(100000004, 100000000, 0), (100000002, 100000000, 0),
      (100000003, 100000001, 0), (100000003, 99999999, 0),
      (100000003, 100000000, 1), (100000003, 100000000, - 1)]"

text \<open>Six points on the sphere of radius \<open>1 / 2 ^ 30\<close> about (1, 1, 1).\<close>

definition tiny_points :: "vec3 list" where
  "tiny_points =
     [(1 + 1 / 2 ^ 30, 1, 1), (1 - 1 / 2 ^ 30, 1, 1),
      (1, 1 + 1 / 2 ^ 30, 1), (1, 1 - 1 / 2 ^ 30, 1),
      (1, 1, 1 + 1 / 2 ^ 30), (1, 1, 1 - 1 / 2 ^ 30)]"

section \<open>Properties of the orientation search\<close>

lemma SetRotation_twice: "SetRotation r (SetRotation r' t) = SetRotation r t"
  by (simp add: SetRotation_def)

lemma step_transform:
  "initial_transform (search_step M s item) = SetRotation (snd item) (initial_transform s)"
  by (simp add: search_step_def Let_def split: prod.splits)

lemma step_evaluated:
  "evaluated (search_step M s item) =
     evaluated s @ [(SetRotation (snd item) (initial_transform s),
                     fst (M (SetRotation (snd item) (initial_transform s)) (sampler s)))]"
  by (simp add: search_step_def Let_def split: prod.splits)

lemma step_best:
  "(best_orientation (search_step M s item), best_similarity_value (search_step M s item)) =
     (let v = fst (M (SetRotation (snd item) (initial_transform s)) (sampler s))
      in if v < best_similarity_value s then (snd item, v)
         else (best_orientation s, best_similarity_value s))"
  by (simp add: search_step_def Let_def split: prod.splits)

lemma step_best_le:
  "best_similarity_value (search_step M s item) \<le> best_similarity_value s"
  by (simp add: search_step_def Let_def split: prod.splits)

lemma loop_append:
  "search_loop M s (xs @ ys) = search_loop M (search_loop M s xs) ys"
  by (induction xs arbitrary: s) simp_all

lemma loop_best_le:
  "best_similarity_value (search_loop M s items) \<le> best_similarity_value s"
proof (induction items arbitrary: s)
  case Nil
  show ?case by simp
next
  case (Cons item items)
  have "best_similarity_value (search_loop M (search_step M s item) items)
          \<le> best_similarity_value (search_step M s item)"
    by (rule Cons.IH)
  also have "\<dots> \<le> best_similarity_value s"
    by (rule step_best_le)
  finally show ?case by simp
qed

lemma loop_transforms:
  "map fst (evaluated (search_loop M s items)) =
     map fst (evaluated s) @ map (\<lambda>item. SetRotation (snd item) (initial_transform s)) items"
  by (induction items arbitrary: s) (simp_all add: step_evaluated step_transform SetRotation_twice)

lemma loop_transform_frame:
  "translation (initial_transform (search_loop M s items)) = translation (initial_transform s) \<and>
   center (initial_transform (search_loop M s items)) = center (initial_transform s)"
  by (induction items arbitrary: s) (simp_all add: step_transform SetRotation_def)

lemma step_first_minimum:
  assumes "first_minimum (evaluated s) (best_orientation s) (best_similarity_value s)"
  shows "first_minimum (evaluated (search_step M s item))
           (best_orientation (search_step M s item)) (best_similarity_value (search_step M s item))"
proof -
  define t where "t = SetRotation (snd item) (initial_transform s)"
  define v where "v = fst (M t (sampler s))"
  define trc where "trc = evaluated s"
  have ev: "evaluated (search_step M s item) = trc @ [(t, v)]"
    by (simp add: step_evaluated t_def v_def trc_def)
  from assms obtain i where i: "i < length trc" "rotation (fst (trc ! i)) = best_orientation s"
    "snd (trc ! i) = best_similarity_value s"
    "\<forall>j < length trc. best_similarity_value s \<le> snd (trc ! j)"
    "\<forall>j < i. best_similarity_value s < snd (trc ! j)"
    unfolding first_minimum_def trc_def by blast
  show ?thesis
  proof (cases "v < best_similarity_value s")
    case True
    then have best: "best_orientation (search_step M s item) = snd item"
      "best_similarity_value (search_step M s item) = v"
      using step_best [of M s item] by (simp_all add: Let_def t_def v_def)
    have "rotation (fst ((trc @ [(t, v)]) ! length trc)) = snd item"
      by (simp add: t_def SetRotation_def)
    moreover have "snd ((trc @ [(t, v)]) ! length trc) = v" by simp
    moreover have "\<forall>j < length (trc @ [(t, v)]). v \<le> snd ((trc @ [(t, v)]) ! j)"
      using i(4) True by (auto simp: nth_append less_Suc_eq) 
    moreover have "\<forall>j < length trc. v < snd ((trc @ [(t, v)]) ! j)"
      using i(4) True by (auto simp: nth_append)
    ultimately show ?thesis
      unfolding first_minimum_def ev best
      by (intro exI [of _ "length trc"]) simp
  next
    case False
    then have best: "best_orientation (search_step M s item) = best_orientation s"
      "best_similarity_value (search_step M s item) = best_similarity_value s"
      using step_best [of M s item] by (simp_all add: Let_def t_def v_def)
    have "\<forall>j < length (trc @ [(t, v)]). best_similarity_value s \<le> snd ((trc @ [(t, v)]) ! j)"
      using i(4) False by (auto simp: nth_append less_Suc_eq)
    moreover have "\<forall>j < i. best_similarity_value s < snd ((trc @ [(t, v)]) ! j)"
      using i(1,5) by (auto simp: nth_append)
    ultimately show ?thesis
      unfolding first_minimum_def ev best using i(1,2,3)
      by (intro exI [of _ i]) (simp add: nth_append)
  qed
qed

lemma loop_first_minimum:
  "first_minimum (evaluated s) (best_orientation s) (best_similarity_value s) \<Longrightarrow>
   first_minimum (evaluated (search_loop M s items))
     (best_orientation (search_loop M s items)) (best_similarity_value (search_loop M s items))"
  by (induction items arbitrary: s) (simp_all add: step_first_minimum)

lemma init_first_minimum:
  "first_minimum (evaluated (search_init M c tr g))
     (best_orientation (search_init M c tr g)) (best_similarity_value (search_init M c tr g))"
  by (simp add: first_minimum_def search_init_def Let_def CenteredTransformInitializer_def
      Euler3DTransform_default_def split: prod.splits)

lemma init_transform:
  "initial_transform (search_init M c tr g) = \<lparr>rotation = (0, 0, 0), translation = tr, center = c\<rparr>"
  by (simp add: search_init_def Let_def CenteredTransformInitializer_def
      Euler3DTransform_default_def split: prod.splits)

lemma centred_identity:
  "CenteredTransformInitializer c tr Euler3DTransform_default =
     \<lparr>rotation = (0, 0, 0), translation = tr, center = c\<rparr>"
  by (simp add: CenteredTransformInitializer_def Euler3DTransform_default_def)

lemma init_evaluated:
  "evaluated (search_init M c tr g) =
     [(\<lparr>rotation = (0, 0, 0), translation = tr, center = c\<rparr>,
       fst (M \<lparr>rotation = (0, 0, 0), translation = tr, center = c\<rparr> g))]"
  by (simp add: search_init_def Let_def centred_identity split: prod.splits)

lemma init_best:
  "best_orientation (search_init M c tr g) = (0, 0, 0)"
  "best_similarity_value (search_init M c tr g) =
     fst (M \<lparr>rotation = (0, 0, 0), translation = tr, center = c\<rparr> g)"
  by (simp_all add: search_init_def Let_def centred_identity split: prod.splits)

lemma SetRotation_make:
  "SetRotation r \<lparr>rotation = r', translation = tr, center = c\<rparr> =
     \<lparr>rotation = r, translation = tr, center = c\<rparr>"
  by (simp add: SetRotation_def)

lemma search_fields:
  "best_orientation (orientation_search M c tr cat g) =
     best_orientation (search_loop M (search_init M c tr g) cat)"
  "best_similarity_value (orientation_search M c tr cat g) =
     best_similarity_value (search_loop M (search_init M c tr g) cat)"
  "evaluated (orientation_search M c tr cat g) =
     evaluated (search_loop M (search_init M c tr g) cat)"
  "initial_transform (orientation_search M c tr cat g) =
     SetRotation (best_orientation (search_loop M (search_init M c tr g) cat))
       (initial_transform (search_loop M (search_init M c tr g) cat))"
  by (simp_all add: orientation_search_def Let_def)

lemma search_transforms:
  "map fst (evaluated (orientation_search M c tr cat g)) =
     map (\<lambda>r. \<lparr>rotation = r, translation = tr, center = c\<rparr>) ((0, 0, 0) # map snd cat)"
  by (simp add: search_fields loop_transforms init_evaluated init_transform SetRotation_make o_def)

lemma deterministic_value: "fst (deterministic F t g) = F t"
  by (simp add: deterministic_def)

lemma loop_deterministic_evaluated:
  "evaluated (search_loop (deterministic F) s items) =
     evaluated s @ map (\<lambda>item. (SetRotation (snd item) (initial_transform s),
                                 F (SetRotation (snd item) (initial_transform s)))) items"
  by (induction items arbitrary: s)
     (simp_all add: step_evaluated step_transform SetRotation_twice deterministic_value)

lemma loop_deterministic_best:
  "(best_orientation (search_loop (deterministic F) s items),
    best_similarity_value (search_loop (deterministic F) s items)) =
     spec_search_loop (\<lambda>r. F (SetRotation r (initial_transform s)))
       (best_orientation s, best_similarity_value s) (map snd items)"
proof (induction items arbitrary: s)
  case Nil
  show ?case by simp
next
  case (Cons item items)
  have same: "(\<lambda>r. F (SetRotation r (initial_transform (search_step (deterministic F) s item)))) =
              (\<lambda>r. F (SetRotation r (initial_transform s)))"
    by (simp add: step_transform SetRotation_twice)
  have best: "(best_orientation (search_step (deterministic F) s item),
               best_similarity_value (search_step (deterministic F) s item)) =
              (if F (SetRotation (snd item) (initial_transform s)) < best_similarity_value s
               then (snd item, F (SetRotation (snd item) (initial_transform s)))
               else (best_orientation s, best_similarity_value s))"
    by (simp add: step_best deterministic_value Let_def)
  show ?case
    using Cons.IH [of "search_step (deterministic F) s item"]
    by (simp only: search_loop.simps same best list.map spec_search_loop.simps snd_conv)
qed

lemma search_deterministic:
  "(best_orientation (orientation_search (deterministic F) c tr cat g),
    best_similarity_value (orientation_search (deterministic F) c tr cat g)) =
     spec_orientation_search (\<lambda>r. F \<lparr>rotation = r, translation = tr, center = c\<rparr>) (map snd cat)"
  by (simp add: search_fields loop_deterministic_best init_transform init_best SetRotation_make
      spec_orientation_search_def deterministic_value)

lemma search_deterministic_trace:
  "evaluated (orientation_search (deterministic F) c tr cat g) =
     map (\<lambda>r. (\<lparr>rotation = r, translation = tr, center = c\<rparr>,
               F \<lparr>rotation = r, translation = tr, center = c\<rparr>)) ((0, 0, 0) # map snd cat)"
  by (simp add: search_fields loop_deterministic_evaluated init_transform init_evaluated
      SetRotation_make deterministic_value o_def)

lemma scenario_eval:
  "spec_orientation_search scenario_score (map snd scenario_catalogue) = ((0, 0, pi / 2), 3 / 10)"
  by (simp add: spec_orientation_search_def scenario_catalogue_def scenario_score_def)

lemma search_surface:
  "(best_orientation (orientation_search (rotation_metric f) c tr cat g),
    best_similarity_value (orientation_search (rotation_metric f) c tr cat g)) =
     spec_orientation_search f (map snd cat)"
proof -
  have "(\<lambda>r. f (rotation \<lparr>rotation = r, translation = tr, center = c\<rparr>)) = f"
    by simp
  then show ?thesis
    by (simp only: rotation_metric_def search_deterministic)
qed

subsection \<open>Claims about the orientation search\<close>

text \<open>
  Claim C1. With a deterministic evaluator the cell evaluates the identity rotation first and
  then every catalogue entry in catalogue order, each on the transform that carries the fixed
  translation; the pair it ends with is the fold of the specification, seeded with the
  identity rotation and its score and replaced exactly when a candidate scores strictly less.
  One iteration, for any evaluator, replaces the running best by the candidate and its score
  when the score is strictly less than the running best and keeps it otherwise. On the
  scenario catalogue with the scores 0.8, 0.3, 0.9, 0.5 the winner is the first candidate
  with score 0.3.
\<close>

theorem orientation_search_is_fold:
  "evaluated (orientation_search (deterministic F) c tr cat g) =
     map (\<lambda>r. (\<lparr>rotation = r, translation = tr, center = c\<rparr>,
               F \<lparr>rotation = r, translation = tr, center = c\<rparr>)) ((0, 0, 0) # map snd cat) \<and>
   (best_orientation (orientation_search (deterministic F) c tr cat g),
    best_similarity_value (orientation_search (deterministic F) c tr cat g)) =
     spec_orientation_search (\<lambda>r. F \<lparr>rotation = r, translation = tr, center = c\<rparr>) (map snd cat) \<and>
   (best_orientation (search_step M s item), best_similarity_value (search_step M s item)) =
     (let v = fst (M (SetRotation (snd item) (initial_transform s)) (sampler s))
      in if v < best_similarity_value s then (snd item, v)
         else (best_orientation s, best_similarity_value s)) \<and>
   (best_orientation
      (orientation_search (rotation_metric scenario_score) c tr scenario_catalogue g),
    best_similarity_value
      (orientation_search (rotation_metric scenario_score) c tr scenario_catalogue g)) =
     ((0, 0, pi / 2), 3 / 10)"
proof -
  have "(best_orientation
      (orientation_search (rotation_metric scenario_score) c tr scenario_catalogue g),
    best_similarity_value
      (orientation_search (rotation_metric scenario_score) c tr scenario_catalogue g)) =
     ((0, 0, pi / 2), 3 / 10)"
    by (simp only: search_surface scenario_eval)
  then show ?thesis
    by (simp only: search_deterministic_trace search_deterministic step_best simp_thms)
qed

theorem orientation_search_is_fold_witness:
  "evaluated (orientation_search (rotation_metric scenario_score)
      (0, 0, 0) (1, 2, 3) scenario_catalogue ()) =
     [(\<lparr>rotation = (0, 0, 0), translation = (1, 2, 3), center = (0, 0, 0)\<rparr>, 8 / 10),
      (\<lparr>rotation = (0, 0, pi / 2), translation = (1, 2, 3), center = (0, 0, 0)\<rparr>, 3 / 10),
      (\<lparr>rotation = (pi, 0, 0), translation = (1, 2, 3), center = (0, 0, 0)\<rparr>, 9 / 10),
      (\<lparr>rotation = (pi, 0, pi / 2), translation = (1, 2, 3), center = (0, 0, 0)\<rparr>, 5 / 10)] \<and>
   best_orientation (orientation_search (rotation_metric scenario_score)
      (0, 0, 0) (1, 2, 3) scenario_catalogue ()) = (0, 0, pi / 2)"
  using orientation_search_is_fold [of "\<lambda>t. scenario_score (rotation t)" "(0, 0, 0)" "(1, 2, 3)"
      scenario_catalogue "()" "rotation_metric scenario_score"
      "search_init (rotation_metric scenario_score) (0, 0, 0) (1, 2, 3) ()"
      "(''cand1'', (0, 0, pi / 2))"]
  by (simp add: rotation_metric_def scenario_catalogue_def scenario_score_def)

text \<open>
  Claim C6. For every catalogue and every evaluator the returned score is at most the score
  observed for the identity rotation; the running best starts at that score and never
  increases from one iteration to a later one, and the returned score is the running best
  after the last iteration.
\<close>

theorem best_never_worse_than_identity:
  "best_similarity_value (orientation_search M c tr cat g) \<le>
     fst (M (CenteredTransformInitializer c tr Euler3DTransform_default) g) \<and>
   running_best M c tr cat g 0 =
     fst (M (CenteredTransformInitializer c tr Euler3DTransform_default) g) \<and>
   (n \<le> m \<longrightarrow> running_best M c tr cat g m \<le> running_best M c tr cat g n) \<and>
   running_best M c tr cat g (length cat) = best_similarity_value (orientation_search M c tr cat g)"
proof -
  let ?s0 = "search_init M c tr g"
  have seed: "best_similarity_value ?s0 =
      fst (M (CenteredTransformInitializer c tr Euler3DTransform_default) g)"
    by (simp add: init_best centred_identity)
  have final: "best_similarity_value (orientation_search M c tr cat g) \<le> best_similarity_value ?s0"
    by (simp add: search_fields loop_best_le)
  have mono: "running_best M c tr cat g m \<le> running_best M c tr cat g n" if "n \<le> m"
  proof -
    have "take m cat = take n cat @ drop n (take m cat)"
      using that by (metis append_take_drop_id min.absorb1 take_take)
    then have "search_loop M ?s0 (take m cat) =
        search_loop M (search_loop M ?s0 (take n cat)) (drop n (take m cat))"
      by (metis loop_append)
    then show ?thesis
      by (simp add: running_best_def loop_best_le)
  qed
  show ?thesis
    using seed final mono by (simp add: running_best_def search_fields)
qed

theorem best_never_worse_than_identity_witness:
  "best_similarity_value (orientation_search (rotation_metric scenario_score)
      (0, 0, 0) (1, 2, 3) scenario_catalogue ()) \<le> 8 / 10 \<and>
   (1 :: nat) \<le> 3 \<and>
   running_best (rotation_metric scenario_score) (0, 0, 0) (1, 2, 3)
      scenario_catalogue () 3 \<le>
   running_best (rotation_metric scenario_score) (0, 0, 0) (1, 2, 3)
      scenario_catalogue () 1"
  using best_never_worse_than_identity [of "rotation_metric scenario_score"
      "(0, 0, 0)" "(1, 2, 3)" scenario_catalogue "()" 1 3]
  by (simp add: rotation_metric_def deterministic_value centred_identity scenario_score_def)

text \<open>
  Claim C7. For every catalogue and every evaluator the returned rotation and score are those
  of the first evaluation, in evaluation order with the identity first, that attains the
  minimum of the observed scores: every earlier evaluation scored strictly more, so of two
  evaluations with equal scores the earlier one wins.
\<close>

theorem first_seen_wins_on_ties:
  "first_minimum (evaluated (orientation_search M c tr cat g))
     (best_orientation (orientation_search M c tr cat g))
     (best_similarity_value (orientation_search M c tr cat g))"
  by (simp add: search_fields loop_first_minimum init_first_minimum)

theorem first_seen_wins_on_ties_witness:
  "map snd (evaluated (orientation_search (rotation_metric tie_score)
      (0, 0, 0) (1, 2, 3) scenario_catalogue ())) = [8 / 10, 3 / 10, 9 / 10, 3 / 10] \<and>
   first_minimum (evaluated (orientation_search (rotation_metric tie_score)
      (0, 0, 0) (1, 2, 3) scenario_catalogue ())) (0, 0, pi / 2) (3 / 10)"
proof -
  let ?s = "orientation_search (rotation_metric tie_score)
      (0, 0, 0) (1, 2, 3) scenario_catalogue ()"
  have "(best_orientation ?s, best_similarity_value ?s) = ((0, 0, pi / 2), 3 / 10)"
    by (simp add: search_surface spec_orientation_search_def scenario_catalogue_def
        tie_score_def)
  then have best: "best_orientation ?s = (0, 0, pi / 2)" "best_similarity_value ?s = 3 / 10"
    by simp_all
  have "map snd (evaluated ?s) = [8 / 10, 3 / 10, 9 / 10, 3 / 10]"
    by (simp add: rotation_metric_def search_deterministic_trace scenario_catalogue_def
        tie_score_def)
  then show ?thesis
    using first_seen_wins_on_ties [of "rotation_metric tie_score"
        "(0, 0, 0)" "(1, 2, 3)" scenario_catalogue "()"]
    by (simp only: best simp_thms)
qed

text \<open>
  Claim C9. Every transform the metric is evaluated on has the translation and the centre of
  the input; the evaluated transforms differ only in their rotation, which runs through the
  identity and the catalogue entries; and the returned transform carries the input
  translation together with the best rotation.
\<close>

theorem translation_held_constant:
  "map fst (evaluated (orientation_search M c tr cat g)) =
     map (\<lambda>r. \<lparr>rotation = r, translation = tr, center = c\<rparr>) ((0, 0, 0) # map snd cat) \<and>
   (\<forall>t \<in> set (map fst (evaluated (orientation_search M c tr cat g))).
      translation t = tr \<and> center t = c) \<and>
   translation (CenteredTransformInitializer c tr Euler3DTransform_default) = tr \<and>
   initial_transform (orientation_search M c tr cat g) =
     \<lparr>rotation = best_orientation (orientation_search M c tr cat g), translation = tr, center = c\<rparr>"
proof -
  have trace: "map fst (evaluated (orientation_search M c tr cat g)) =
     map (\<lambda>r. \<lparr>rotation = r, translation = tr, center = c\<rparr>) ((0, 0, 0) # map snd cat)"
    by (rule search_transforms)
  have frame: "\<forall>t \<in> set (map fst (evaluated (orientation_search M c tr cat g))).
      translation t = tr \<and> center t = c"
    unfolding trace by auto
  have "translation (initial_transform (search_loop M (search_init M c tr g) cat)) = tr"
    "center (initial_transform (search_loop M (search_init M c tr g) cat)) = c"
    by (simp_all add: loop_transform_frame init_transform)
  then have final: "initial_transform (orientation_search M c tr cat g) =
     \<lparr>rotation = best_orientation (orientation_search M c tr cat g), translation = tr, center = c\<rparr>"
    by (simp add: search_fields SetRotation_def)
  show ?thesis
    using trace frame final by (simp add: centred_identity)
qed

theorem translation_held_constant_witness:
  "translation (initial_transform (orientation_search
      (rotation_metric scenario_score) (0, 0, 0) (1, 2, 3) scenario_catalogue ())) =
     (1, 2, 3) \<and>
   map (translation \<circ> fst) (evaluated (orientation_search
      (rotation_metric scenario_score) (0, 0, 0) (1, 2, 3) scenario_catalogue ())) =
     [(1, 2, 3), (1, 2, 3), (1, 2, 3), (1, 2, 3)]"
proof -
  let ?s = "orientation_search (rotation_metric scenario_score)
      (0, 0, 0) (1, 2, 3) scenario_catalogue ()"
  note w = translation_held_constant [of "rotation_metric scenario_score"
      "(0, 0, 0)" "(1, 2, 3)" scenario_catalogue "()"]
  from w have "map (translation \<circ> fst) (evaluated ?s) =
      map translation (map (\<lambda>r. \<lparr>rotation = r, translation = (1, 2, 3), center = (0, 0, 0)\<rparr>)
        ((0, 0, 0) # map snd scenario_catalogue))"
    by (metis map_map)
  moreover from w have "translation (initial_transform ?s) = (1, 2, 3)" by simp
  ultimately show ?thesis
    by (simp add: scenario_catalogue_def)
qed

lemma search_rotations:
  "map (\<lambda>e. rotation (fst e)) (evaluated (orientation_search M c tr cat g)) =
     (0, 0, 0) # map snd cat"
proof -
  have "map (\<lambda>e. rotation (fst e)) (evaluated (orientation_search M c tr cat g)) =
          map rotation (map fst (evaluated (orientation_search M c tr cat g)))"
    by (simp add: o_def)
  also have "\<dots> = (0, 0, 0) # map snd cat"
    by (simp only: search_transforms) (simp add: o_def)
  finally show ?thesis .
qed

lemma pi_distinct:
  "- (pi / 2) \<noteq> pi" "pi \<noteq> - (pi / 2)" "- pi \<noteq> pi / 2" "pi / 2 \<noteq> - pi"
  "pi / 2 \<noteq> pi" "pi \<noteq> pi / 2" "- pi \<noteq> - (pi / 2)" "- (pi / 2) \<noteq> - pi"
  "- pi \<noteq> pi" "pi \<noteq> - pi" "pi / 2 \<noteq> - (pi / 2)" "- (pi / 2) \<noteq> pi / 2"
  using pi_gt_zero by linarith+

lemma upto_samples:
  "[- 1 .. 1 :: int] = [- 1, 0, 1]" "[- 2 .. 2 :: int] = [- 2, - 1, 0, 1, 2]" "[0 .. 0 :: int] = [0]"
  "[- 1 .. 2 :: int] = [- 1, 0, 1, 2]"
  by code_simp+

lemma rotation_matrix_z:
  "rotation_matrix (0, 0, a) = [[cos a, - sin a, 0], [sin a, cos a, 0], [0, 0, 1]]"
  by (simp add: rotation_matrix_def mat_mul3_def rotation_x_def rotation_y_def rotation_z_def
      dot_def)

lemma rotation_matrix_x_pi_z:
  "rotation_matrix (pi, 0, a) = [[cos a, sin a, 0], [sin a, - cos a, 0], [0, 0, - 1]]"
  by (simp add: rotation_matrix_def mat_mul3_def rotation_x_def rotation_y_def rotation_z_def
      dot_def)

text \<open>
  Claim C10. The catalogue entry with the key \<open>x=0, y=0, z=-90\<close> holds the triple
  \<open>(0, 0, -\<pi>)\<close>, which is not \<open>(0, 0, -\<pi>/2)\<close>. The catalogue therefore has the two
  distinct triples \<open>(0, 0, -\<pi>)\<close> and \<open>(0, 0, \<pi>)\<close> with the same rotation matrix, and
  neither the triple \<open>(0, 0, -\<pi>/2)\<close> nor any triple with its rotation matrix is among the
  rotations the search evaluates.
\<close>

theorem minus_90_entry_holds_minus_pi:
  "map_of all_orientations ''x=0, y=0, z=-90'' = Some (0, 0, - pi) \<and>
   (0, 0, - pi) \<noteq> (0, 0, - pi / 2 :: real) \<and>
   (0, 0, - pi) \<in> set (map snd all_orientations) \<and>
   (0, 0, pi) \<in> set (map snd all_orientations) \<and>
   (0, 0, - pi) \<noteq> (0, 0, pi :: real) \<and>
   rotation_matrix (0, 0, - pi) = rotation_matrix (0, 0, pi) \<and>
   (0, 0, - pi / 2) \<notin>
     set (map (\<lambda>e. rotation (fst e)) (evaluated (orientation_search M c tr all_orientations g))) \<and>
   rotation_matrix (0, 0, - pi / 2) \<notin>
     set (map (\<lambda>e. rotation_matrix (rotation (fst e)))
       (evaluated (orientation_search M c tr all_orientations g)))"
proof -
  have entry: "map_of all_orientations ''x=0, y=0, z=-90'' = Some (0, 0, - pi)"
    by (simp add: all_orientations_def)
  have members: "(0, 0, - pi) \<in> set (map snd all_orientations)"
    "(0, 0, pi) \<in> set (map snd all_orientations)"
    by (simp_all add: all_orientations_def)
  have same: "rotation_matrix (0, 0, - pi) = rotation_matrix (0, 0, pi)"
    by (simp add: rotation_matrix_z)
  have triples: "(0, 0, - pi / 2) \<notin>
     set (map (\<lambda>e. rotation (fst e)) (evaluated (orientation_search M c tr all_orientations g)))"
    by (simp only: search_rotations) (simp add: all_orientations_def pi_distinct)
  have "map (\<lambda>e. rotation_matrix (rotation (fst e)))
          (evaluated (orientation_search M c tr all_orientations g)) =
        map rotation_matrix (map (\<lambda>e. rotation (fst e))
          (evaluated (orientation_search M c tr all_orientations g)))"
    by (simp add: o_def)
  then have matrices: "rotation_matrix (0, 0, - pi / 2) \<notin>
     set (map (\<lambda>e. rotation_matrix (rotation (fst e)))
       (evaluated (orientation_search M c tr all_orientations g)))"
    by (simp only: search_rotations)
       (simp add: all_orientations_def rotation_matrix_z rotation_matrix_x_pi_z)
  show ?thesis
    using entry members same triples matrices by (simp add: pi_distinct)
qed

lemma spec_search_loop_minimum:
  "fst (spec_search_loop f (b, f b) ps) \<in> insert b (set ps) \<and>
   snd (spec_search_loop f (b, f b) ps) = f (fst (spec_search_loop f (b, f b) ps)) \<and>
   (\<forall>q \<in> insert b (set ps). snd (spec_search_loop f (b, f b) ps) \<le> f q)"
proof (induction ps arbitrary: b)
  case Nil
  show ?case by simp
next
  case (Cons p ps)
  show ?case
  proof (cases "f p < f b")
    case True
    then have "spec_search_loop f (b, f b) (p # ps) = spec_search_loop f (p, f p) ps"
      by simp
    moreover have "\<forall>q \<in> insert p (set ps). snd (spec_search_loop f (p, f p) ps) \<le> f q"
      using Cons.IH [of p] by blast
    then have "snd (spec_search_loop f (p, f p) ps) \<le> f b"
      using True by force
    ultimately show ?thesis
      using Cons.IH [of p] by auto
  next
    case False
    then have "spec_search_loop f (b, f b) (p # ps) = spec_search_loop f (b, f b) ps"
      by simp
    moreover have "\<forall>q \<in> insert b (set ps). snd (spec_search_loop f (b, f b) ps) \<le> f q"
      using Cons.IH [of b] by blast
    then have "snd (spec_search_loop f (b, f b) ps) \<le> f p"
      using False by force
    ultimately show ?thesis
      using Cons.IH [of b] by auto
  qed
qed

lemma exhaustive_grid_points:
  "exhaustive_grid (0, 0, 0) =
     [(- pi, 0, - pi), (0, 0, - pi), (pi, 0, - pi),
      (- pi, 0, - pi / 2), (0, 0, - pi / 2), (pi, 0, - pi / 2),
      (- pi, 0, 0), (0, 0, 0), (pi, 0, 0),
      (- pi, 0, pi / 2), (0, 0, pi / 2), (pi, 0, pi / 2),
      (- pi, 0, pi), (0, 0, pi), (pi, 0, pi)]"
  by (simp add: exhaustive_grid_def axis_samples_def numberOfSteps_def stepLength_def
      optimizer_scales_def upto_samples)

lemma rotation_matrix_x_minus_pi_z:
  "rotation_matrix (- pi, 0, a) = [[cos a, sin a, 0], [sin a, - cos a, 0], [0, 0, - 1]]"
  by (simp add: rotation_matrix_def mat_mul3_def rotation_x_def rotation_y_def rotation_z_def
      dot_def)

lemmas rotation_matrices = rotation_matrix_z rotation_matrix_x_pi_z rotation_matrix_x_minus_pi_z

lemma minus_90_surface_grid:
  "map minus_90_surface (exhaustive_grid (0, 0, 0)) =
     [1, 1, 1, 1, 0, 1, 1, 1, 1, 1, 1, 1, 1, 1, 1]"
  by (simp add: exhaustive_grid_points minus_90_surface_def rotation_matrices)

lemma minus_90_surface_catalogue:
  "map minus_90_surface ((0, 0, 0) # map snd all_orientations) = [1, 1, 1, 1, 1, 1, 1, 1]"
  by (simp add: all_orientations_def minus_90_surface_def rotation_matrices)

text \<open>
  Claim C5. The two strategies do not return the same rotation for every metric surface. On
  the surface that is least at the rotation by \<open>-90\<close> degrees about \<open>z\<close> the grid search
  returns \<open>(0, 0, -\<pi>/2)\<close> with score 0, while the per-candidate search, whose catalogue
  entry \<open>x=0, y=0, z=-90\<close> holds \<open>(0, 0, -\<pi>)\<close>, never evaluates that rotation and returns
  the identity with score 1.
\<close>

theorem grid_search_finds_minus_90_rotation:
  "best_orientation (orientation_search (rotation_metric minus_90_surface)
      (0, 0, 0) (0, 0, 0) all_orientations ()) = (0, 0, 0) \<and>
   best_similarity_value (orientation_search (rotation_metric minus_90_surface)
      (0, 0, 0) (0, 0, 0) all_orientations ()) = 1 \<and>
   exhaustive_search minus_90_surface (0, 0, 0) = ((0, 0, - pi / 2), 0) \<and>
   rotation_matrix (0, 0, 0) \<noteq> rotation_matrix (0, 0, - pi / 2)"
proof -
  have "spec_orientation_search minus_90_surface (map snd all_orientations) = ((0, 0, 0), 1)"
    using minus_90_surface_catalogue
    by (simp add: spec_orientation_search_def all_orientations_def)
  then have "(best_orientation (orientation_search (rotation_metric minus_90_surface)
      (0, 0, 0) (0, 0, 0) all_orientations ()),
    best_similarity_value (orientation_search (rotation_metric minus_90_surface)
      (0, 0, 0) (0, 0, 0) all_orientations ())) = ((0, 0, 0), 1)"
    by (simp only: search_surface)
  moreover have "exhaustive_search minus_90_surface (0, 0, 0) = ((0, 0, - pi / 2), 0)"
    using minus_90_surface_grid
    by (simp add: exhaustive_search_def exhaustive_grid_points)
  moreover have "rotation_matrix (0, 0, 0) \<noteq> rotation_matrix (0, 0, - pi / 2)"
    by (simp add: rotation_matrices)
  ultimately show ?thesis by simp
qed

text \<open>
  With the catalogue the keys name, the two strategies evaluate the same eight rotations:
  for every surface that depends on the rotation only they return the same score, and
  triples of the same rotation whenever the minimising rotation is unique.
\<close>

lemma grid_rotations:
  "rotation_matrix ` set (exhaustive_grid (0, 0, 0)) =
   rotation_matrix ` set ((0, 0, 0) # map snd intended_orientations)"
  by (simp add: exhaustive_grid_points intended_orientations_def rotation_matrices) auto

lemma strategies_agree_on_intended_catalogue:
  fixes g :: "matrix \<Rightarrow> real"
  defines "f \<equiv> matrix_surface g"
  shows "snd (exhaustive_search f (0, 0, 0)) =
     best_similarity_value (orientation_search (rotation_metric f) c tr intended_orientations s) \<and>
   ((\<forall>p \<in> set (exhaustive_grid (0, 0, 0)). \<forall>q \<in> set (exhaustive_grid (0, 0, 0)).
       f p = f q \<and> (\<forall>q' \<in> set (exhaustive_grid (0, 0, 0)). f p \<le> f q') \<longrightarrow>
       rotation_matrix p = rotation_matrix q) \<longrightarrow>
    rotation_matrix (best_orientation
        (orientation_search (rotation_metric f) c tr intended_orientations s)) =
    rotation_matrix (fst (exhaustive_search f (0, 0, 0))))"
proof -
  let ?cat = "(0, 0, 0) # map snd intended_orientations"
  let ?grid = "exhaustive_grid (0, 0, 0)"
  let ?s = "orientation_search (rotation_metric f) c tr intended_orientations s"
  define pe where "pe = fst (exhaustive_search f (0, 0, 0))"
  define ve where "ve = snd (exhaustive_search f (0, 0, 0))"
  have origin: "(0, 0, 0) \<in> set ?grid" by (simp add: exhaustive_grid_points)
  have e: "pe \<in> set ?grid" "ve = f pe" "\<forall>q \<in> set ?grid. ve \<le> f q"
    using spec_search_loop_minimum [of f "(0, 0, 0)" ?grid] origin
    by (auto simp: pe_def ve_def exhaustive_search_def insert_absorb)
  define r where "r = spec_search_loop f ((0, 0, 0), f (0, 0, 0)) (map snd intended_orientations)"
  have "(best_orientation ?s, best_similarity_value ?s) = r"
    by (simp only: search_surface spec_orientation_search_def r_def)
  then have pair: "best_orientation ?s = fst r" "best_similarity_value ?s = snd r"
    by (metis fst_conv, metis snd_conv)
  have m: "fst r \<in> insert (0, 0, 0) (set (map snd intended_orientations)) \<and> snd r = f (fst r) \<and>
      (\<forall>q \<in> insert (0, 0, 0) (set (map snd intended_orientations)). snd r \<le> f q)"
    unfolding r_def by (rule spec_search_loop_minimum)
  define pc where "pc = best_orientation ?s"
  have s: "pc \<in> set ?cat" "best_similarity_value ?s = f pc" "\<forall>q \<in> set ?cat. f pc \<le> f q"
    using m unfolding pair pc_def by auto
  have fm: "f p = f q" if "rotation_matrix p = rotation_matrix q" for p q
    using that by (simp add: f_def matrix_surface_def)
  obtain pc' where pc': "pc' \<in> set ?grid" "rotation_matrix pc' = rotation_matrix pc"
    using s(1) grid_rotations by (metis (no_types, lifting) image_iff)
  obtain pe' where pe': "pe' \<in> set ?cat" "rotation_matrix pe' = rotation_matrix pe"
    using e(1) grid_rotations by (metis (no_types, lifting) image_iff)
  have "f pe \<le> f pc" using e(2,3) pc'(1) fm [OF pc'(2)] by auto
  moreover have "f pc \<le> f pe" using s(3) pe'(1) fm [OF pe'(2)] by auto
  ultimately have eq: "f pe = f pc" by simp
  have min: "\<forall>q' \<in> set ?grid. f pe \<le> f q'" using e(2,3) by auto
  have "f pe = f pc'" using eq fm [OF pc'(2)] by simp
  then have "rotation_matrix pc = rotation_matrix pe"
    if "\<forall>p \<in> set ?grid. \<forall>q \<in> set ?grid.
       f p = f q \<and> (\<forall>q' \<in> set ?grid. f p \<le> f q') \<longrightarrow> rotation_matrix p = rotation_matrix q"
    using that e(1) pc' min by metis
  then show ?thesis
    using eq s(2) e(2) unfolding pe_def ve_def pc_def by simp
qed


section \<open>Properties of the sphere fit\<close>

subsection \<open>Rounding to the nearest double\<close>

lemma pow2_eval: "pow2 e = (if 0 \<le> e then 2 ^ nat e else 1 / 2 ^ nat (- e))"
  by (simp add: pow2_def powr_int)

lemma pow2_pos [simp]: "0 < pow2 e"
  by (simp add: pow2_def)

lemma pow2_nonneg [simp]: "0 \<le> pow2 e"
  by (simp add: pow2_def)

lemma pow2_add: "pow2 (a + b) = pow2 a * pow2 b"
  by (simp add: pow2_def powr_add)

lemma pow2_mono: "a \<le> b \<Longrightarrow> pow2 a \<le> pow2 b"
  by (simp add: pow2_def)

lemma pow2_strict_mono: "a < b \<Longrightarrow> pow2 a < pow2 b"
  by (simp add: pow2_def)

lemma pow2_abs [simp]: "\<bar>pow2 e\<bar> = pow2 e"
  by (simp add: pow2_def)

lemma pow2_numeral:
  "pow2 0 = 1" "pow2 1 = 2" "pow2 (numeral n) = 2 ^ numeral n"
  "pow2 (- numeral n) = 1 / 2 ^ numeral n"
  by (simp_all add: pow2_eval)

lemma pow2_shift: "pow2 (e + numeral n) = 2 ^ numeral n * pow2 e"
  by (simp add: pow2_add pow2_numeral)

lemma pow2_shift': "pow2 (numeral n + e) = 2 ^ numeral n * pow2 e"
  by (simp add: pow2_add pow2_numeral)

lemma pow2_Suc: "pow2 (e + 1) = 2 * pow2 e"
  by (simp add: pow2_add pow2_numeral)

lemma pow2_neq_0 [simp]: "pow2 e \<noteq> 0"
  by (simp add: pow2_def)

lemma round_half_even_near:
  "\<bar>q - of_int m\<bar> < 1 / 2 \<Longrightarrow> round_half_even q = m"
proof -
  assume h: "\<bar>q - of_int m\<bar> < 1 / 2"
  show ?thesis
  proof (cases "of_int m \<le> q")
    case True
    then have "\<lfloor>q\<rfloor> = m" using h by (intro floor_unique) auto
    then show ?thesis using h True by (simp add: round_half_even_def Let_def)
  next
    case False
    then have "\<lfloor>q\<rfloor> = m - 1" using h by (intro floor_unique) auto
    then show ?thesis using h False by (auto simp: round_half_even_def Let_def)
  qed
qed

lemma round_half_even_int [simp]: "round_half_even (of_int m) = m"
  by (rule round_half_even_near) simp

lemma round_half_even_error: "\<bar>of_int (round_half_even q) - q\<bar> \<le> 1 / 2"
  unfolding round_half_even_def Let_def by (auto; linarith)

lemma binade_eq:
  assumes "pow2 e \<le> \<bar>x\<bar>" "\<bar>x\<bar> < pow2 (e + 1)" "- 1022 \<le> e"
  shows "binade x = e"
proof -
  have "0 < \<bar>x\<bar>" using assms(1) pow2_pos [of e] by linarith
  then have "\<lfloor>log 2 \<bar>x\<bar>\<rfloor> = e"
    using assms(1,2) by (subst floor_log_eq_powr_iff) (simp_all add: pow2_def)
  then show ?thesis using assms(3) by (simp add: binade_def)
qed


lemma of_int_bounds:
  fixes m :: int
  shows "2 ^ 52 \<le> m \<Longrightarrow> (2::real) ^ 52 \<le> of_int m"
    and "2 ^ 52 < m \<Longrightarrow> (2::real) ^ 52 + 1 \<le> of_int m"
    and "m < 2 ^ 53 \<Longrightarrow> of_int m + 1 \<le> (2::real) ^ 53"
    and "2 ^ 52 \<le> \<bar>m\<bar> \<Longrightarrow> (2::real) ^ 52 \<le> \<bar>of_int m\<bar>"
    and "\<bar>m\<bar> < 2 ^ 53 \<Longrightarrow> \<bar>of_int m\<bar> < (2::real) ^ 53"
    and "\<bar>m\<bar> < 2 ^ 52 \<Longrightarrow> \<bar>of_int m\<bar> < (2::real) ^ 52"
  by (simp; linarith)+

text \<open>
  The double nearest to a positive number is found by bracketing: \<open>m * pow2 e\<close> is the
  result when the number lies strictly between the midpoints to its two neighbours.
\<close>

lemma rnd_bracket:
  assumes m: "2 ^ 52 \<le> m" "m < 2 ^ 53" and e: "- 1074 \<le> e"
    and lo: "(2 * of_int m - 1) * pow2 e < 2 * x" and hi: "2 * x < (2 * of_int m + 1) * pow2 e"
    and low: "of_int m * pow2 e \<le> x \<or> 2 ^ 52 < m"
  shows "rnd x = of_int m * pow2 e"
proof -
  have p: "0 < pow2 e" by simp
  have mr: "(2::real) ^ 52 \<le> of_int m" "of_int m + 1 \<le> (2::real) ^ 53"
    using m by (simp_all only: of_int_bounds)
  have x_lo: "2 ^ 52 * pow2 e \<le> x"
  proof (cases "of_int m * pow2 e \<le> x")
    case True
    have "2 ^ 52 * pow2 e \<le> of_int m * pow2 e" using mr(1) p by simp
    then show ?thesis using True by linarith
  next
    case False
    then have "2 ^ 52 < m" using low by simp
    then have "(2::real) ^ 52 + 1 \<le> of_int m" by (rule of_int_bounds)
    then have "(2 ^ 52 + 1 / 2) * pow2 e \<le> (of_int m - 1 / 2) * pow2 e" using p by simp
    moreover have "(of_int m - 1 / 2) * pow2 e < x" using lo by (simp add: algebra_simps)
    moreover have "2 ^ 52 * pow2 e \<le> (2 ^ 52 + 1 / 2) * pow2 e" using p by simp
    ultimately show ?thesis by linarith
  qed
  from mr(2) have "(of_int m + 1 / 2) * pow2 e < 2 ^ 53 * pow2 e" using p by simp
  moreover have "x < (of_int m + 1 / 2) * pow2 e" using hi by (simp add: algebra_simps)
  ultimately have x_hi: "x < 2 ^ 53 * pow2 e" by linarith
  have "0 < 2 ^ 52 * pow2 e" by simp
  then have xpos: "0 < x" using x_lo by linarith
  have "pow2 (e + 52) = 2 ^ 52 * pow2 e" "pow2 (e + 52 + 1) = 2 ^ 53 * pow2 e"
    by (simp_all add: pow2_shift pow2_shift' pow2_Suc)
  then have b: "binade x = e + 52"
    using x_lo x_hi xpos e by (intro binade_eq) simp_all
  define t where "t = of_int m * pow2 e"
  have "2 * t - pow2 e < 2 * x" "2 * x < 2 * t + pow2 e"
    using lo hi by (simp_all add: t_def algebra_simps)
  then have "\<bar>x - t\<bar> < pow2 e / 2" by linarith
  then have "\<bar>x - of_int m * pow2 e\<bar> < pow2 e / 2" by (simp add: t_def)
  then have "\<bar>x - of_int m * pow2 e\<bar> / pow2 e < 1 / 2"
    using p by (simp add: field_simps)
  moreover have "x / pow2 e - of_int m = (x - of_int m * pow2 e) / pow2 e"
    by (simp add: field_simps)
  ultimately have "\<bar>x / pow2 e - of_int m\<bar> < 1 / 2"
    by simp
  then have "round_half_even (x / pow2 e) = m" by (rule round_half_even_near)
  then show ?thesis using xpos b by (simp add: rnd_def)
qed

lemma rnd_exact:
  assumes m: "2 ^ 52 \<le> \<bar>m\<bar>" "\<bar>m\<bar> < 2 ^ 53" and e: "- 1074 \<le> e"
  shows "rnd (of_int m * pow2 e) = of_int m * pow2 e"
proof -
  let ?x = "of_int m * pow2 e"
  have mr: "(2::real) ^ 52 \<le> \<bar>of_int m\<bar>" "\<bar>of_int m\<bar> < (2::real) ^ 53"
    using m by (simp_all only: of_int_bounds)
  have ax: "\<bar>?x\<bar> = \<bar>of_int m\<bar> * pow2 e" by (simp add: abs_mult)
  have "pow2 (e + 52) = 2 ^ 52 * pow2 e" "pow2 (e + 52 + 1) = 2 ^ 53 * pow2 e"
    by (simp_all add: pow2_shift pow2_shift' pow2_Suc)
  moreover have "2 ^ 52 * pow2 e \<le> \<bar>?x\<bar>" "\<bar>?x\<bar> < 2 ^ 53 * pow2 e"
    using mr unfolding ax by simp_all
  ultimately have b: "binade ?x = e + 52"
    using e by (intro binade_eq) simp_all
  have "?x \<noteq> 0" using m by auto
  then show ?thesis by (simp add: rnd_def b)
qed



lemma rnd_zero [simp]: "rnd 0 = 0"
  by (simp add: rnd_def)

lemma fl_zero [simp]: "fl 0 = Finite 0"
  using pow2_pos [of 1024] by (simp add: fl_def not_le del: pow2_pos)

lemma fl_finite: "\<bar>rnd x\<bar> < pow2 1024 \<Longrightarrow> fl x = Finite (rnd x)"
  by (auto simp: fl_def)

lemma normal_bound:
  assumes "\<bar>m\<bar> < 2 ^ 53" "e \<le> 971"
  shows "\<bar>of_int m * pow2 e\<bar> < pow2 1024"
proof -
  have "\<bar>of_int m\<bar> < (2::real) ^ 53" using assms(1) by (rule of_int_bounds)
  then have "\<bar>of_int m * pow2 e\<bar> < 2 ^ 53 * pow2 e" by (simp add: abs_mult)
  also have "\<dots> = pow2 (e + 53)" by (simp add: pow2_shift)
  also have "\<dots> \<le> pow2 1024" using assms(2) by (intro pow2_mono) simp
  finally show ?thesis .
qed

lemma fl_normal:
  assumes "x = of_int m * pow2 e" "2 ^ 52 \<le> \<bar>m\<bar>" "\<bar>m\<bar> < 2 ^ 53" "- 1074 \<le> e" "e \<le> 971"
  shows "fl x = Finite x"
proof -
  have "rnd x = x" unfolding assms(1) using assms(2,3,4) by (rule rnd_exact)
  moreover have "\<bar>x\<bar> < pow2 1024" unfolding assms(1) using assms(3,5) by (rule normal_bound)
  ultimately show ?thesis using fl_finite [of x] by simp
qed



lemma fl_bracket:
  assumes "2 ^ 52 < m" "m < 2 ^ 53" "- 1074 \<le> e" "e \<le> 971"
    and "(2 * of_int m - 1) * pow2 e < 2 * x" "2 * x < (2 * of_int m + 1) * pow2 e"
  shows "fl x = Finite (of_int m * pow2 e)"
proof -
  have "rnd x = of_int m * pow2 e"
    using assms by (intro rnd_bracket) simp_all
  moreover have "\<bar>m\<bar> < 2 ^ 53" using assms(1,2) by simp
  then have "\<bar>of_int m * pow2 e\<bar> < pow2 1024" using assms(4) by (rule normal_bound)
  ultimately show ?thesis using fl_finite [of x] by simp
qed

lemma fl_sqrt_bracket:
  assumes "2 ^ 52 < m" "m < 2 ^ 53" "- 1074 \<le> e" "e \<le> 971"
    and "((2 * of_int m - 1) * pow2 e)\<^sup>2 < 4 * x" "4 * x < ((2 * of_int m + 1) * pow2 e)\<^sup>2"
  shows "fl (sqrt x) = Finite (of_int m * pow2 e)"
proof -
  have m: "(2::real) ^ 52 + 1 \<le> of_int m" using assms(1) by (rule of_int_bounds)
  have s: "2 * sqrt x = sqrt (4 * x)" by (simp add: real_sqrt_mult)
  have "0 \<le> 2 * of_int m - (1::real)" using m by simp
  then have "0 \<le> (2 * of_int m - 1) * pow2 e" by (intro mult_nonneg_nonneg) simp_all
  then have lo: "(2 * of_int m - 1) * pow2 e < 2 * sqrt x"
    unfolding s using assms(5) by (intro real_less_rsqrt)
  have "0 \<le> 2 * of_int m + (1::real)" using m by simp
  then have "0 \<le> (2 * of_int m + 1) * pow2 e" by (intro mult_nonneg_nonneg) simp_all
  then have hi: "2 * sqrt x < (2 * of_int m + 1) * pow2 e"
    unfolding s using assms(6) by (intro real_less_lsqrt)
  show ?thesis using assms(1-4) lo hi by (rule fl_bracket)
qed



lemma round_half_even_bound:
  assumes "\<bar>q\<bar> \<le> of_int n"
  shows "\<bar>round_half_even q\<bar> \<le> n"
proof -
  have "\<bar>of_int (round_half_even q) - q\<bar> \<le> 1 / 2" by (rule round_half_even_error)
  then have "of_int (round_half_even q) \<le> (of_int n :: real) + 1 / 2"
    "- (of_int n :: real) - 1 / 2 \<le> of_int (round_half_even q)"
    using assms by linarith+
  then have "of_int (round_half_even q) < (of_int (n + 1) :: real)"
    "(of_int (- n - 1) :: real) < of_int (round_half_even q)"
    by simp_all
  then have "round_half_even q < n + 1" "- n - 1 < round_half_even q"
    by (simp_all only: of_int_less_iff)
  then show ?thesis by simp
qed

lemma pow2_int: "0 \<le> e \<Longrightarrow> pow2 e = of_int (2 ^ nat e)"
  by (simp add: pow2_eval)

lemma rnd_bound:
  assumes "\<bar>x\<bar> \<le> pow2 k" "- 1022 \<le> k"
  shows "\<bar>rnd x\<bar> \<le> pow2 k"
proof (cases "x = 0")
  case True
  then show ?thesis by simp
next
  case False
  define b where "b = binade x"
  have "log 2 \<bar>x\<bar> \<le> of_int k"
    using assms(1) False by (subst log_le_iff) (simp_all add: pow2_def)
  then have "\<lfloor>log 2 \<bar>x\<bar>\<rfloor> \<le> k" by (simp add: floor_le_iff)
  then have bk: "b \<le> k" using assms(2) by (simp add: b_def binade_def)
  define n where "n = (2::int) ^ nat (k - b + 52)"
  have n: "of_int n = pow2 (k - b + 52)" using bk by (simp add: n_def pow2_int)
  have split: "pow2 k = pow2 (k - b + 52) * pow2 (b - 52)"
    using pow2_add [of "k - b + 52" "b - 52"] by simp
  have "\<bar>x / pow2 (b - 52)\<bar> = \<bar>x\<bar> / pow2 (b - 52)" by simp
  also have "\<dots> \<le> pow2 k / pow2 (b - 52)" using assms(1) by (simp add: divide_right_mono)
  also have "\<dots> = of_int n" unfolding n split by simp
  finally have "\<bar>round_half_even (x / pow2 (b - 52))\<bar> \<le> n" by (rule round_half_even_bound)
  then have "\<bar>of_int (round_half_even (x / pow2 (b - 52)))\<bar> \<le> (of_int n :: real)"
    by (metis of_int_abs of_int_le_iff)
  then have "\<bar>of_int (round_half_even (x / pow2 (b - 52)))\<bar> * pow2 (b - 52)
      \<le> of_int n * pow2 (b - 52)"
    by (intro mult_right_mono) simp_all
  then show ?thesis
    using False unfolding n split [symmetric] by (simp add: rnd_def b_def abs_mult)
qed

lemma fl_bounded:
  assumes "\<bar>x\<bar> \<le> pow2 k" "- 1022 \<le> k" "k < 1024"
  shows "\<exists>y. fl x = Finite y \<and> \<bar>y\<bar> \<le> pow2 k"
proof -
  have "\<bar>rnd x\<bar> \<le> pow2 k" using assms(1,2) by (rule rnd_bound)
  moreover have "pow2 k < pow2 1024" using assms(3) by (intro pow2_strict_mono) simp
  ultimately show ?thesis using fl_finite [of x] by auto
qed


lemma fl_overflow: "rnd x = y \<Longrightarrow> pow2 1024 \<le> y \<Longrightarrow> fl x = PInf"
  by (simp add: fl_def)


subsection \<open>The loop and the radius in closed form\<close>

lemma py_square_error: "py_square x = Inl e \<Longrightarrow> e = OverflowError"
  by (cases x) (auto split: float64.splits)

lemma norm_squared_error:
  "norm_squared v = Inl e \<Longrightarrow> e = OverflowError \<or> e = ValueError \<and> \<not> list_all isfinite v"
  by (auto simp: norm_squared_def linalg_norm_def asarray_chkfinite_def
      dest: py_square_error split: if_splits)

lemma norm_squared_list:
  "norm_squared [Finite x, Finite y, Finite z] = py_square (fl (sqrt (x\<^sup>2 + y\<^sup>2 + z\<^sup>2)))"
  by (simp add: norm_squared_def linalg_norm_def asarray_chkfinite_def nrm2_def add.assoc)

lemma norm_squared_point:
  "norm_squared (np_array (x, y, z)) = py_square (fl (sqrt (x\<^sup>2 + y\<^sup>2 + z\<^sup>2)))"
  by (simp add: np_array_def norm_squared_list)

lemma norm_squared_point_error: "norm_squared (np_array p) = Inl e \<Longrightarrow> e = OverflowError"
  by (cases p) (auto simp: norm_squared_point dest: py_square_error)

lemma norm_squared_ok:
  assumes "x\<^sup>2 + y\<^sup>2 + z\<^sup>2 \<le> pow2 1000"
  shows "\<exists>sq. norm_squared (np_array (x, y, z)) = Inr sq"
proof -
  define S where "S = x\<^sup>2 + y\<^sup>2 + z\<^sup>2"
  have S: "0 \<le> S" "S \<le> pow2 1000" using assms by (simp_all add: S_def)
  have "pow2 1000 = (pow2 500)\<^sup>2" using pow2_add [of 500 500] by (simp add: power2_eq_square)
  then have "sqrt S \<le> pow2 500"
    using S by (intro real_le_lsqrt) simp_all
  then have "\<bar>sqrt S\<bar> \<le> pow2 500" using S by simp
  then obtain n where n: "fl (sqrt S) = Finite n" "\<bar>n\<bar> \<le> pow2 500"
    using fl_bounded [of "sqrt S" 500] by auto
  have "\<bar>n\<bar> * \<bar>n\<bar> \<le> pow2 500 * pow2 500"
    using n(2) by (intro mult_mono) simp_all
  then have "\<bar>n * n\<bar> \<le> pow2 500 * pow2 500"
    by (simp add: abs_mult)
  then have "\<bar>n * n\<bar> \<le> pow2 1000" using pow2_add [of 500 500] by simp
  then obtain sq where "fl (n * n) = Finite sq"
    using fl_bounded [of "n * n" 1000] by auto
  then show ?thesis
    unfolding norm_squared_point S_def [symmetric] n(1) by simp
qed

lemma fill_system_closed:
  assumes "length A = row + length points" "length b = row + length points"
    "\<forall>i < length A. row \<le> i \<longrightarrow> A ! i = replicate 4 (Finite 1)"
  shows "fill_system row points (A, b) =
           (if \<forall>p \<in> set points. \<exists>sq. norm_squared (np_array p) = Inr sq
            then Inr (take row A @ map cell_row points, take row b @ map cell_rhs points)
            else Inl OverflowError)"
  using assms
proof (induction points arbitrary: row A b)
  case Nil
  then show ?case by simp
next
  case (Cons p ps)
  obtain x y z where p: "p = (x, y, z)" by (cases p)
  define A' where "A' = A[row := scale_array (- 2) (np_array p) @ drop 3 (A ! row)]"
  have row: "row < length A" "row < length b" using Cons.prems by simp_all
  have Arow: "A ! row = replicate 4 (Finite 1)" using Cons.prems(3) row by simp
  have new: "scale_array (- 2) (np_array p) @ drop 3 (A ! row) = cell_row p"
    by (simp add: Arow p np_array_def cell_row_def scale_array_def eval_nat_numeral)
  show ?case
  proof (cases "norm_squared (np_array p)")
    case (Inl e)
    then have "e = OverflowError" by (rule norm_squared_point_error)
    then show ?thesis using Inl by simp
  next
    case (Inr sq)
    define b' where "b' = b[row := f_neg sq]"
    have unfold: "fill_system row (p # ps) (A, b) = fill_system (Suc row) ps (A', b')"
      using Inr by (simp add: A'_def b'_def Let_def)
    have IH: "fill_system (Suc row) ps (A', b') =
          (if \<forall>p \<in> set ps. \<exists>sq. norm_squared (np_array p) = Inr sq
           then Inr (take (Suc row) A' @ map cell_row ps, take (Suc row) b' @ map cell_rhs ps)
           else Inl OverflowError)"
      using Cons.prems by (intro Cons.IH) (simp_all add: A'_def b'_def)
    have tA: "take (Suc row) A' = take row A @ [cell_row p]"
      using row new by (simp add: A'_def take_Suc_conv_app_nth)
    have tb: "take (Suc row) b' = take row b @ [cell_rhs p]"
      using row Inr by (simp add: b'_def cell_rhs_def take_Suc_conv_app_nth)
    have all: "(\<forall>q \<in> set (p # ps). \<exists>sq. norm_squared (np_array q) = Inr sq) \<longleftrightarrow>
        (\<forall>q \<in> set ps. \<exists>sq. norm_squared (np_array q) = Inr sq)"
      using Inr by simp
    show ?thesis
      unfolding unfold IH tA tb all by simp
  qed
qed

lemma build_system_closed:
  "build_system pts =
     (if \<forall>p \<in> set pts. \<exists>sq. norm_squared (np_array p) = Inr sq
      then Inr (map cell_row pts, map cell_rhs pts)
      else Inl OverflowError)"
  unfolding build_system_def
  by (subst fill_system_closed) (simp_all add: np_ones_def np_zeros_def)

lemma build_system_error: "build_system pts = Inl e \<Longrightarrow> e = OverflowError"
  by (simp add: build_system_closed split: if_splits)

lemma sphere_radius_error:
  "sphere_radius res = Inl e \<Longrightarrow>
     e = OverflowError \<or> e = ValueError \<and> \<not> list_all isfinite (take 3 res) \<or>
     e = IndexError \<and> length res \<le> 3"
  by (auto simp: sphere_radius_def dest: norm_squared_error split: sum.splits if_splits)

lemma sphere_radius_4:
  "length res = 4 \<Longrightarrow> norm_squared (take 3 res) = Inr sq \<Longrightarrow>
   sphere_radius res = Inr (np_sqrt (np_sub sq (res ! 3)))"
  by (simp add: sphere_radius_def)


lemma sphere_fit_constant:
  assumes "\<forall>p \<in> set pts. \<exists>sq. norm_squared (np_array p) = Inr sq"
    and "sphere_radius u = Inr radius"
  shows "sphere_fit (constant_solver u) pts = Inr (u, radius)"
  using assms by (simp add: sphere_fit_def build_system_closed constant_solver_def)

subsection \<open>Least squares in exact arithmetic\<close>

lemma residual_sphere:
  "residual (map sphere_row pts) (map sphere_rhs pts) [a, b, c, k] =
     (\<Sum>(x, y, z)\<leftarrow>pts. (x\<^sup>2 + y\<^sup>2 + z\<^sup>2 - 2 * (a * x + b * y + c * z) + k)\<^sup>2)"
proof -
  have "residual (map sphere_row pts) (map sphere_rhs pts) [a, b, c, k] =
          (\<Sum>p\<leftarrow>pts. (dot (sphere_row p) [a, b, c, k] - sphere_rhs p)\<^sup>2)"
    by (simp add: residual_def zip_map_map zip_same_conv_map o_def split_def)
  also have "\<dots> = (\<Sum>(x, y, z)\<leftarrow>pts. (x\<^sup>2 + y\<^sup>2 + z\<^sup>2 - 2 * (a * x + b * y + c * z) + k)\<^sup>2)"
    by (rule arg_cong [where f = sum_list], rule map_cong)
       (auto simp: dot_def sphere_row_def sphere_rhs_def algebra_simps)
  finally show ?thesis .
qed

lemma length4: "length u = 4 \<Longrightarrow> \<exists>a b c k. u = [a, b, c, k]"
  by (auto simp: length_Suc_conv eval_nat_numeral)



lemma residual_nonneg: "0 \<le> residual A b u"
  unfolding residual_def by (rule sum_list_nonneg) auto

lemma exact_solution_is_least_squares:
  "length u = 4 \<Longrightarrow> residual A b u = 0 \<Longrightarrow> least_squares_solution A b u"
  by (simp add: least_squares_solution_def residual_nonneg)

subsection \<open>Values of the test inputs\<close>

lemma fl_1: "fl 1 = Finite 1"
  by (rule fl_normal [where m = "4503599627370496" and e = "- 52"]; simp add: pow2_numeral)

lemma fl_2: "fl 2 = Finite 2"
  by (rule fl_normal [where m = "4503599627370496" and e = "- 51"]; simp add: pow2_numeral)

lemma fl_m1: "fl (- 1) = Finite (- 1)"
  by (rule fl_normal [where m = "- 4503599627370496" and e = "- 52"]; simp add: pow2_numeral)

lemma fl_m2: "fl (- 2) = Finite (- 2)"
  by (rule fl_normal [where m = "- 4503599627370496" and e = "- 51"]; simp add: pow2_numeral)

lemma fl_m4: "fl (- 4) = Finite (- 4)"
  by (rule fl_normal [where m = "- 4503599627370496" and e = "- 50"]; simp add: pow2_numeral)

lemma fl_5: "fl 5 = Finite 5"
  by (rule fl_normal [where m = "5629499534213120" and e = "- 50"]; simp add: pow2_numeral)

lemma fl_m6: "fl (- 6) = Finite (- 6)"
  by (rule fl_normal [where m = "- 6755399441055744" and e = "- 50"]; simp add: pow2_numeral)

lemma fl_m8: "fl (- 8) = Finite (- 8)"
  by (rule fl_normal [where m = "- 4503599627370496" and e = "- 49"]; simp add: pow2_numeral)

lemma fl_10: "fl 10 = Finite 10"
  by (rule fl_normal [where m = "5629499534213120" and e = "- 49"]; simp add: pow2_numeral)

lemma fl_m10: "fl (- 10) = Finite (- 10)"
  by (rule fl_normal [where m = "- 5629499534213120" and e = "- 49"]; simp add: pow2_numeral)

lemma fl_25: "fl 25 = Finite 25"
  by (rule fl_normal [where m = "7036874417766400" and e = "- 48"]; simp add: pow2_numeral)

lemma fl_radicand: "fl (12801 / 512) = Finite (12801 / 512)"
  by (rule fl_normal [where m = "7037424173580288" and e = "- 48"]; simp add: pow2_numeral)

lemma fl_ulp: "fl (- (1 / 2 ^ 51)) = Finite (- (1 / 2 ^ 51))"
  by (rule fl_normal [where m = "- 4503599627370496" and e = "- 103"]; simp add: pow2_numeral)

lemmas fl_values =
  fl_1 fl_2 fl_m1 fl_m2 fl_m4 fl_5 fl_m6 fl_m8 fl_10 fl_m10 fl_25 fl_radicand





lemma norm_zero: "norm_squared [Finite 0, Finite 0, Finite 0] = Inr (Finite 0)"
  by (simp add: norm_squared_list)

text \<open>
  The point (1, 1, 1): its norm rounds to a double below the square root of 3, and the square
  of that double rounds to the double just below 3.
\<close>

lemma fl_sqrt_3: "fl (sqrt 3) = Finite (7800463371553962 / 2 ^ 52)"
proof -
  have "fl (sqrt 3) = Finite (of_int 7800463371553962 * pow2 (- 52))"
    by (rule fl_sqrt_bracket) (simp_all add: pow2_numeral power_divide)
  then show ?thesis by (simp add: pow2_numeral)
qed

lemma fl_square_sqrt_3:
  "fl (7800463371553962 / 2 ^ 52 * (7800463371553962 / 2 ^ 52)) =
     Finite (6755399441055743 / 2 ^ 51)"
proof -
  have "fl (7800463371553962 / 2 ^ 52 * (7800463371553962 / 2 ^ 52)) =
      Finite (of_int 6755399441055743 * pow2 (- 51))"
    by (rule fl_bracket) (simp_all add: pow2_numeral)
  then show ?thesis by (simp add: pow2_numeral)
qed

lemma norm_squared_111:
  "norm_squared [Finite 1, Finite 1, Finite 1] = Inr (Finite (6755399441055743 / 2 ^ 51))"
proof -
  have "norm_squared [Finite 1, Finite 1, Finite 1] =
      py_square (Finite (7800463371553962 / 2 ^ 52))"
    using fl_sqrt_3 by (simp add: norm_squared_list)
  also have "\<dots> = Inr (Finite (6755399441055743 / 2 ^ 51))"
    using fl_square_sqrt_3 by simp
  finally show ?thesis .
qed





text \<open>The three points: the system is computed exactly as well.\<close>

lemma three_points_norms:
  "\<forall>p \<in> set three_points. norm_squared (np_array p) = Inr (Finite 1)"
  by (simp add: three_points_def norm_squared_point fl_values)

lemma three_points_build: "build_system three_points = Inr (exact_system three_points)"
proof -
  have "\<forall>p \<in> set three_points. \<exists>sq. norm_squared (np_array p) = Inr sq"
    using three_points_norms by blast
  moreover have "map cell_row three_points = fst (exact_system three_points)"
    by (simp add: three_points_def exact_system_def cell_row_def sphere_row_def fl_values)
  moreover have "map cell_rhs three_points = snd (exact_system three_points)"
    using three_points_norms
    by (simp add: three_points_def exact_system_def cell_rhs_def sphere_rhs_def)
  ultimately show ?thesis
    by (simp add: build_system_closed)
qed

lemma three_points_residual:
  "residual (map sphere_row three_points) (map sphere_rhs three_points) [a, b, c, k] =
     (1 - 2 * a + k)\<^sup>2 + (1 + 2 * a + k)\<^sup>2 + (1 - 2 * b + k)\<^sup>2"
  unfolding residual_sphere by (simp add: three_points_def)

lemma three_points_solution:
  "least_squares_solution (map sphere_row three_points) (map sphere_rhs three_points)
     [0, 0, 0, - 1]"
  by (rule exact_solution_is_least_squares) (simp_all add: three_points_residual)

lemma three_points_minimum_norm:
  "minimum_norm_solution (map sphere_row three_points) (map sphere_rhs three_points)
     [0, 0, 0, - 1]"
  unfolding minimum_norm_solution_def
proof (intro conjI allI impI)
  show "least_squares_solution (map sphere_row three_points) (map sphere_rhs three_points)
     [0, 0, 0, - 1]"
    by (rule three_points_solution)
next
  fix v
  assume ls: "least_squares_solution (map sphere_row three_points) (map sphere_rhs three_points) v"
  then have "length v = 4" by (simp add: least_squares_solution_def)
  then obtain a b c k where v: "v = [a, b, c, k]" using length4 by blast
  have "residual (map sphere_row three_points) (map sphere_rhs three_points) v
      \<le> residual (map sphere_row three_points) (map sphere_rhs three_points) [0, 0, 0, - 1]"
    using ls unfolding least_squares_solution_def by simp
  then have "(1 - 2 * a + k)\<^sup>2 + (1 + 2 * a + k)\<^sup>2 + (1 - 2 * b + k)\<^sup>2 \<le> 0"
    unfolding v three_points_residual by simp
  moreover have "0 \<le> (1 - 2 * a + k)\<^sup>2" "0 \<le> (1 + 2 * a + k)\<^sup>2" "0 \<le> (1 - 2 * b + k)\<^sup>2"
    by simp_all
  ultimately have "(1 - 2 * a + k)\<^sup>2 = 0" "(1 + 2 * a + k)\<^sup>2 = 0" "(1 - 2 * b + k)\<^sup>2 = 0"
    by linarith+
  then have "1 - 2 * a + k = 0" "1 + 2 * a + k = 0" "1 - 2 * b + k = 0"
    by simp_all
  then have "k = - 1" by linarith
  then have "1 \<le> (\<Sum>x\<leftarrow>v. x\<^sup>2)" unfolding v by simp
  then show "(\<Sum>x\<leftarrow>[0, 0, 0, - 1]. x\<^sup>2) \<le> (\<Sum>x\<leftarrow>v. x\<^sup>2)"
    by simp
qed

lemma three_points_radius: "sphere_radius (map Finite [0, 0, 0, - 1]) = Inr (Finite 1)"
  using sphere_radius_4 [of "map Finite [0, 0, 0, - 1]" "Finite 0"]
  by (simp add: norm_zero fl_values)

lemma three_points_no_overflow:
  "\<forall>p \<in> set three_points. \<exists>sq. norm_squared (np_array p) = Inr sq"
  using three_points_norms by blast

text \<open>The point with coordinate \<open>2 ^ 600\<close>: the square of its norm is out of range.\<close>

lemma huge_points_overflow: "build_system huge_points = Inl OverflowError"
proof -
  have s: "sqrt ((2 ^ 600)\<^sup>2 + 0\<^sup>2 + 0\<^sup>2) = (2 ^ 600 :: real)"
    by (rule real_sqrt_unique) simp_all
  have n: "fl (2 ^ 600) = Finite (2 ^ 600)"
    by (rule fl_normal [where m = "2 ^ 52" and e = "548"]; simp add: pow2_numeral)
  have "rnd (of_int (2 ^ 52) * pow2 1148) = of_int (2 ^ 52) * pow2 1148"
    by (rule rnd_exact) simp_all
  moreover have "(2 ^ 600 * 2 ^ 600 :: real) = of_int (2 ^ 52) * pow2 1148"
    by (simp add: pow2_numeral)
  ultimately have "rnd (2 ^ 600 * 2 ^ 600) = 2 ^ 600 * 2 ^ 600" by simp
  moreover have "pow2 1024 \<le> 2 ^ 600 * 2 ^ 600" by (simp add: pow2_numeral)
  ultimately have "fl (2 ^ 600 * 2 ^ 600) = PInf" by (rule fl_overflow)
  then have "norm_squared (np_array (2 ^ 600, 0, 0)) = Inl OverflowError"
    unfolding norm_squared_point s n by simp
  then show ?thesis by (simp add: build_system_closed huge_points_def)
qed










text \<open>
  The six points about (100000003, 100000000, 0): the squared norm of the centre is
  20000000600000009, and the cell computes it as 20000000600000004.
\<close>

lemma fl_sqrt_unit: "fl (sqrt 20000000600000009) = Finite (4745313352392277 / 2 ^ 25)"
proof -
  have "fl (sqrt 20000000600000009) = Finite (of_int 4745313352392277 * pow2 (- 25))"
    by (rule fl_sqrt_bracket) (simp_all add: pow2_numeral power_divide)
  then show ?thesis by (simp add: pow2_numeral)
qed

lemma fl_square_unit:
  "fl (4745313352392277 / 2 ^ 25 * (4745313352392277 / 2 ^ 25)) = Finite 20000000600000004"
proof -
  have "fl (4745313352392277 / 2 ^ 25 * (4745313352392277 / 2 ^ 25)) =
      Finite (of_int 5000000150000001 * pow2 2)"
    by (rule fl_bracket) (simp_all add: pow2_numeral)
  then show ?thesis by (simp add: pow2_numeral)
qed

lemma unit_centre_norm:
  "norm_squared [Finite 100000003, Finite 100000000, Finite 0] =
     Inr (Finite 20000000600000004)"
proof -
  have "norm_squared [Finite 100000003, Finite 100000000, Finite 0] =
      py_square (Finite (4745313352392277 / 2 ^ 25))"
    using fl_sqrt_unit by (simp add: norm_squared_list)
  also have "\<dots> = Inr (Finite 20000000600000004)"
    using fl_square_unit by simp
  finally show ?thesis .
qed

lemma unit_points_no_overflow:
  "\<forall>p \<in> set unit_points. \<exists>sq. norm_squared (np_array p) = Inr sq"
  by (simp add: unit_points_def norm_squared_ok pow2_numeral)

lemma unit_points_solution:
  "least_squares_solution (map sphere_row unit_points) (map sphere_rhs unit_points)
     [100000003, 100000000, 0, 20000000600000008]"
proof (rule exact_solution_is_least_squares)
  show "residual (map sphere_row unit_points) (map sphere_rhs unit_points)
      [100000003, 100000000, 0, 20000000600000008] = 0"
    unfolding residual_sphere by (simp add: unit_points_def)
qed simp

text \<open>
  The six points about (1, 1, 1): the last entry of the exact solution is \<open>3 - 1 / 2 ^ 60\<close>,
  whose nearest double is 3, and the cell computes the squared norm of the centre as
  \<open>3 - 1 / 2 ^ 51\<close>.
\<close>

lemma fl_near_3: "fl (3 - 1 / 2 ^ 60) = Finite 3"
proof -
  have "fl (3 - 1 / 2 ^ 60) = Finite (of_int 6755399441055744 * pow2 (- 51))"
    by (rule fl_bracket) (simp_all add: pow2_numeral)
  then show ?thesis by (simp add: pow2_numeral)
qed

lemma tiny_points_no_overflow:
  "\<forall>p \<in> set tiny_points. \<exists>sq. norm_squared (np_array p) = Inr sq"
  by (simp add: tiny_points_def norm_squared_ok pow2_numeral power_divide)

lemma tiny_points_on_sphere: "list_all (on_sphere (1, 1, 1) (1 / 2 ^ 30)) tiny_points"
  by (simp add: tiny_points_def on_sphere_def power_divide)

lemma tiny_points_solution:
  "least_squares_solution (map sphere_row tiny_points) (map sphere_rhs tiny_points)
     [1, 1, 1, 3 - 1 / 2 ^ 60]"
proof (rule exact_solution_is_least_squares)
  show "residual (map sphere_row tiny_points) (map sphere_rhs tiny_points)
      [1, 1, 1, 3 - 1 / 2 ^ 60] = 0"
    unfolding residual_sphere by (simp add: tiny_points_def power_divide)
qed simp

lemma tiny_points_radius: "sphere_radius (map Finite [1, 1, 1, 3]) = Inr NaN"
proof -
  have "np_sub (Finite (6755399441055743 / 2 ^ 51)) (Finite 3) = Finite (- (1 / 2 ^ 51))"
    using fl_ulp by simp
  then show ?thesis
    using sphere_radius_4 [of "map Finite [1, 1, 1, 3]" "Finite (6755399441055743 / 2 ^ 51)"]
      norm_squared_111
    by simp
qed

subsection \<open>Claims about the sphere fit\<close>







text \<open>
  Claim C3, as amended. The cell has no check of the number of points or of the rank, for any
  input. It fails exactly when the construction of the system fails, which is with
  \<open>OverflowError\<close> before the solver is called; or the solver fails, whose error the cell
  passes on unchanged; or the radius expression fails on the vector the solver returned,
  which is with \<open>OverflowError\<close>, with \<open>ValueError\<close> when one of the first three entries is
  not finite, or with \<open>IndexError\<close> when the vector has fewer than four entries. In every
  other case the cell returns the solver's vector and the radius computed from it. The cell
  raises \<open>DegenerateInputError\<close> only when the solver does.
\<close>

theorem sphere_fit_fails_only_with_library:
  "(sphere_fit lstsq pts = Inl e \<longleftrightarrow>
      build_system pts = Inl e \<or>
      (\<exists>A b. build_system pts = Inr (A, b) \<and>
         (lstsq A b = Inl e \<or> (\<exists>res. lstsq A b = Inr res \<and> sphere_radius res = Inl e)))) \<and>
   (build_system pts = Inl e \<longrightarrow> e = OverflowError) \<and>
   (sphere_radius res = Inl e \<longrightarrow>
      e = OverflowError \<or> e = ValueError \<and> \<not> list_all isfinite (take 3 res) \<or>
      e = IndexError \<and> length res \<le> 3) \<and>
   (build_system pts = Inr (A, b) \<and> lstsq A b = Inr res \<and> sphere_radius res = Inr radius \<longrightarrow>
      sphere_fit lstsq pts = Inr (res, radius)) \<and>
   (sphere_fit lstsq pts = Inl DegenerateInputError \<longleftrightarrow>
      (\<exists>A b. build_system pts = Inr (A, b) \<and> lstsq A b = Inl DegenerateInputError))"
proof -
  have 1: "sphere_fit lstsq pts = Inl e' \<longleftrightarrow>
      build_system pts = Inl e' \<or>
      (\<exists>A b. build_system pts = Inr (A, b) \<and>
         (lstsq A b = Inl e' \<or> (\<exists>res. lstsq A b = Inr res \<and> sphere_radius res = Inl e')))"
    for e'
    by (auto simp: sphere_fit_def split: sum.splits prod.splits)
  have 2: "build_system pts \<noteq> Inl DegenerateInputError"
    using build_system_error [of pts DegenerateInputError] by auto
  have 3: "sphere_radius res' \<noteq> Inl DegenerateInputError" for res'
    using sphere_radius_error [of res' DegenerateInputError] by auto
  have 4: "sphere_fit lstsq pts = Inl DegenerateInputError \<longleftrightarrow>
      (\<exists>A b. build_system pts = Inr (A, b) \<and> lstsq A b = Inl DegenerateInputError)"
    unfolding 1 [of DegenerateInputError] using 2 3 by simp
  have 5: "sphere_fit lstsq pts = Inr (res, radius)"
    if "build_system pts = Inr (A, b)" "lstsq A b = Inr res" "sphere_radius res = Inr radius"
    using that by (simp add: sphere_fit_def)
  show ?thesis
    using 1 [of e] 4 5 build_system_error [of pts e] sphere_radius_error [of res e]
    by blast
qed

theorem sphere_fit_fails_only_with_library_witness:
  "sphere_fit failing_solver three_points = Inl LinAlgError \<and>
   sphere_fit failing_solver huge_points = Inl OverflowError \<and>
   sphere_fit (constant_solver [Finite 0, Finite 0, Finite 0]) three_points = Inl IndexError \<and>
   sphere_fit (constant_solver [NaN, Finite 0, Finite 0, Finite 0]) three_points =
     Inl ValueError"
proof -
  have b: "build_system three_points =
      Inr (fst (exact_system three_points), snd (exact_system three_points))"
    using three_points_build by simp
  have 1: "sphere_fit failing_solver three_points = Inl LinAlgError"
    using sphere_fit_fails_only_with_library [of failing_solver three_points LinAlgError] b
    by (auto simp: failing_solver_def)
  have 2: "sphere_fit failing_solver huge_points = Inl OverflowError"
    using sphere_fit_fails_only_with_library [of failing_solver huge_points OverflowError]
      huge_points_overflow
    by simp
  have "sphere_radius [Finite 0, Finite 0, Finite 0] = Inl IndexError"
    by (simp add: sphere_radius_def norm_zero)
  then have 3: "sphere_fit (constant_solver [Finite 0, Finite 0, Finite 0]) three_points =
      Inl IndexError"
    using sphere_fit_fails_only_with_library
      [of "constant_solver [Finite 0, Finite 0, Finite 0]" three_points IndexError] b
    by (auto simp: constant_solver_def)
  have "sphere_radius [NaN, Finite 0, Finite 0, Finite 0] = Inl ValueError"
    by (simp add: sphere_radius_def norm_squared_def linalg_norm_def asarray_chkfinite_def)
  then have 4: "sphere_fit (constant_solver [NaN, Finite 0, Finite 0, Finite 0]) three_points =
      Inl ValueError"
    using sphere_fit_fails_only_with_library
      [of "constant_solver [NaN, Finite 0, Finite 0, Finite 0]" three_points ValueError] b
    by (auto simp: constant_solver_def)
  show ?thesis using 1 2 3 4 by simp
qed

text \<open>
  Claim C3 as the specification words it fails: for the three points (1, 0, 0), (-1, 0, 0),
  (0, 1, 0), which are fewer than four and make the matrix rank-deficient, the cell builds
  the system of the specification without rounding error, and with the solver returning the
  least-squares solution of least norm, \<open>[0, 0, 0, -1]\<close>, the cell raises no error and
  returns that vector and the radius 1.
\<close>

theorem three_points_no_error_counterexample:
  "length three_points < 4 \<and>
   build_system three_points = Inr (exact_system three_points) \<and>
   minimum_norm_solution (map sphere_row three_points) (map sphere_rhs three_points)
     [0, 0, 0, - 1] \<and>
   sphere_fit (constant_solver (map Finite [0, 0, 0, - 1])) three_points =
     Inr (map Finite [0, 0, 0, - 1], Finite 1)"
proof -
  have "sphere_fit (constant_solver (map Finite [0, 0, 0, - 1])) three_points =
     Inr (map Finite [0, 0, 0, - 1], Finite 1)"
    using three_points_no_overflow three_points_radius by (rule sphere_fit_constant)
  moreover have "length three_points < 4" by (simp add: three_points_def)
  ultimately show ?thesis
    using three_points_build three_points_minimum_norm by simp
qed

text \<open>
  Claim C4, as amended. When the radicand the cell computes in doubles, the rounded squared
  norm of \<open>res[0:3]\<close> minus \<open>res[3]\<close>, is negative, the radius computation raises no error:
  \<^verbatim>\<open>np.sqrt\<close> returns NaN, and the cell returns the solver's vector with the radius NaN.
  The radius computation never raises \<open>NonPhysicalResultError\<close>, and the cell raises it only
  when the solver does.
\<close>

theorem negative_radicand_gives_nan:
  "(norm_squared (take 3 res) = Inr sq \<and> 3 < length res \<and> np_sub sq (res ! 3) = Finite d \<and>
    d < 0 \<longrightarrow> sphere_radius res = Inr NaN) \<and>
   sphere_radius res \<noteq> Inl NonPhysicalResultError \<and>
   (build_system pts = Inr (A, b) \<and> lstsq A b = Inr res \<and> sphere_radius res = Inr NaN \<longrightarrow>
      sphere_fit lstsq pts = Inr (res, NaN)) \<and>
   (sphere_fit lstsq pts = Inl NonPhysicalResultError \<longleftrightarrow>
      (\<exists>A b. build_system pts = Inr (A, b) \<and> lstsq A b = Inl NonPhysicalResultError))"
proof -
  have 1: "sphere_radius res' \<noteq> Inl NonPhysicalResultError" for res'
    using sphere_radius_error [of res' NonPhysicalResultError] by auto
  have 2: "build_system pts \<noteq> Inl NonPhysicalResultError"
    using build_system_error [of pts NonPhysicalResultError] by auto
  have 3: "sphere_fit lstsq pts = Inl NonPhysicalResultError \<longleftrightarrow>
      (\<exists>A b. build_system pts = Inr (A, b) \<and> lstsq A b = Inl NonPhysicalResultError)"
    using 1 2 by (auto simp: sphere_fit_def split: sum.splits prod.splits)
  have 4: "sphere_radius res = Inr NaN"
    if "norm_squared (take 3 res) = Inr sq" "3 < length res" "np_sub sq (res ! 3) = Finite d"
      "d < 0"
    using that by (simp add: sphere_radius_def)
  have 5: "sphere_fit lstsq pts = Inr (res, NaN)"
    if "build_system pts = Inr (A, b)" "lstsq A b = Inr res" "sphere_radius res = Inr NaN"
    using that by (simp add: sphere_fit_def)
  show ?thesis
    using 1 [of res] 3 4 5 by blast
qed

theorem negative_radicand_gives_nan_witness:
  "list_all (on_sphere (100000003, 100000000, 0) 1) unit_points \<and>
   least_squares_solution (map sphere_row unit_points) (map sphere_rhs unit_points)
     [100000003, 100000000, 0, 20000000600000008] \<and>
   norm_squared [Finite 100000003, Finite 100000000, Finite 0] =
     Inr (Finite 20000000600000004) \<and>
   sphere_fit (constant_solver (map Finite [100000003, 100000000, 0, 20000000600000008]))
       unit_points =
     Inr (map Finite [100000003, 100000000, 0, 20000000600000008], NaN)"
proof -
  let ?res = "map Finite [100000003, 100000000, 0, 20000000600000008]"
  have b: "build_system unit_points = Inr (map cell_row unit_points, map cell_rhs unit_points)"
    using unit_points_no_overflow by (simp add: build_system_closed)
  have s: "constant_solver ?res (map cell_row unit_points) (map cell_rhs unit_points) =
      Inr ?res"
    by (simp add: constant_solver_def)
  have n: "norm_squared (take 3 ?res) = Inr (Finite 20000000600000004)"
    using unit_centre_norm by simp
  have d: "np_sub (Finite 20000000600000004) (?res ! 3) = Finite (- 4)"
    using fl_m4 by simp
  note w = negative_radicand_gives_nan [of ?res "Finite 20000000600000004" "- 4" unit_points
      "map cell_row unit_points" "map cell_rhs unit_points" "constant_solver ?res"]
  have "sphere_radius ?res = Inr NaN"
    using w n d by simp
  then have "sphere_fit (constant_solver ?res) unit_points = Inr (?res, NaN)"
    using w b s by blast
  moreover have "list_all (on_sphere (100000003, 100000000, 0) 1) unit_points"
    by (simp add: unit_points_def on_sphere_def)
  ultimately show ?thesis
    using unit_points_solution unit_centre_norm by simp
qed

text \<open>
  Claim C4 as the specification words it fails: the six points of \<open>tiny_points\<close> lie exactly
  on the sphere of radius \<open>1 / 2 ^ 30\<close> about (1, 1, 1); the exact solution is
  \<open>[1, 1, 1, 3 - 1 / 2 ^ 60]\<close>, which in doubles is \<open>[1, 1, 1, 3]\<close>; for that vector the cell
  computes the radicand \<open>- 1 / 2 ^ 51\<close>, which is negative, raises no error and returns the
  radius NaN.
\<close>

theorem tiny_sphere_nan_counterexample:
  "list_all (on_sphere (1, 1, 1) (1 / 2 ^ 30)) tiny_points \<and>
   least_squares_solution (map sphere_row tiny_points) (map sphere_rhs tiny_points)
     [1, 1, 1, 3 - 1 / 2 ^ 60] \<and>
   map fl [1, 1, 1, 3 - 1 / 2 ^ 60] = map Finite [1, 1, 1, 3] \<and>
   norm_squared (take 3 (map Finite [1, 1, 1, 3])) = Inr (Finite (3 - 1 / 2 ^ 51)) \<and>
   np_sub (Finite (3 - 1 / 2 ^ 51)) (Finite 3) = Finite (- (1 / 2 ^ 51)) \<and>
   sphere_fit (constant_solver (map Finite [1, 1, 1, 3])) tiny_points =
     Inr (map Finite [1, 1, 1, 3], NaN)"
proof -
  have "sphere_fit (constant_solver (map Finite [1, 1, 1, 3])) tiny_points =
     Inr (map Finite [1, 1, 1, 3], NaN)"
    using tiny_points_no_overflow tiny_points_radius by (rule sphere_fit_constant)
  moreover have "map fl [1, 1, 1, 3 - 1 / 2 ^ 60] = map Finite [1, 1, 1, 3]"
    using fl_near_3 fl_1 by simp
  moreover have "norm_squared (take 3 (map Finite [1, 1, 1, 3])) = Inr (Finite (3 - 1 / 2 ^ 51))"
    using norm_squared_111 by simp
  moreover have "np_sub (Finite (3 - 1 / 2 ^ 51)) (Finite 3) = Finite (- (1 / 2 ^ 51))"
    using fl_ulp by simp
  ultimately show ?thesis
    using tiny_points_on_sphere tiny_points_solution by simp
qed

end
